theory Spec2Isabelle
  imports Complex_Main
begin

section \<open>Values\<close>

text \<open>
  A GDScript \<open>Variant\<close>, as far as the bridge distinguishes them in \<open>_variant_to_json\<close>.
  \<open>JSON.parse_string\<close> yields only null, booleans, floats (every JSON number), strings,
  arrays and dictionaries with string keys. Floats are written as rationals. An object
  reference is null (\<open>None\<close>) or carries \<open>get_class()\<close> and, for a \<open>Node\<close>,
  \<open>str(get_path())\<close>. \<open>VOther\<close> is a value of any other type, with
  \<open>type_string(typeof(value))\<close> and \<open>str(value)\<close>.
\<close>

datatype variant =
    VNil
  | VBool bool
  | VInt int
  | VFloat rat
  | VString string
  | VVector2 rat rat
  | VVector3 rat rat rat
  | VColor rat rat rat rat
  | VRect2 rat rat rat rat
  | VTransform2D rat rat rat rat rat rat
  | VNodePath string
  | VRID string
  | VObject "(string \<times> string option) option"
  | VArray "variant list"
  | VDictionary "(variant \<times> variant) list"
  | VOther string string

text \<open>
  A \<open>Dictionary\<close> keeps its keys in insertion order. \<open>d.get(k, default)\<close>,
  \<open>d.has(k)\<close> and \<open>d[k] = v\<close> (which replaces the value of a key already present).
\<close>

type_synonym dict = "(variant \<times> variant) list"

definition dict_get :: "dict \<Rightarrow> variant \<Rightarrow> variant \<Rightarrow> variant" where
  "dict_get d k dflt = (case map_of d k of None \<Rightarrow> dflt | Some v \<Rightarrow> v)"

definition dict_has :: "dict \<Rightarrow> variant \<Rightarrow> bool" where
  "dict_has d k = (map_of d k \<noteq> None)"

fun dict_set :: "dict \<Rightarrow> variant \<Rightarrow> variant \<Rightarrow> dict" where
  "dict_set [] k v = [(k, v)]"
| "dict_set ((k', v') # d) k v = (if k' = k then (k, v) # d else (k', v') # dict_set d k v)"

text \<open>
  Runtime errors of GDScript. A failed typed assignment
  (\<open>var x: String = <non-string>\<close>), a conversion that has no constructor, and a call on
  a null instance each abort the running function: nothing after them runs.
\<close>

datatype script_error = TypeMismatch | NullInstance

definition and_then :: "'e + 'a \<Rightarrow> ('a \<Rightarrow> 'e + 'b) \<Rightarrow> 'e + 'b" where
  "and_then m f = (case m of Inl e \<Rightarrow> Inl e | Inr x \<Rightarrow> f x)"

text \<open>\<open>a in b\<close> on strings: \<open>a\<close> occurs in \<open>b\<close> as a contiguous substring.\<close>

fun starts_with :: "string \<Rightarrow> string \<Rightarrow> bool" where
  "starts_with s [] = True"
| "starts_with [] (c # cs) = False"
| "starts_with (d # ds) (c # cs) = (d = c \<and> starts_with ds cs)"

fun contains :: "string \<Rightarrow> string \<Rightarrow> bool" where
  "contains [] sub = (sub = [])"
| "contains (c # cs) sub = (starts_with (c # cs) sub \<or> contains cs sub)"

text \<open>A dictionary literal with string keys.\<close>

definition dict_of :: "(string \<times> variant) list \<Rightarrow> variant" where
  "dict_of kvs = VDictionary (map (\<lambda>(k, v). (VString k, v)) kvs)"

section \<open>The scene tree and the engine\<close>

text \<open>
  A node of the scene tree: its name, \<open>get_class()\<close>, \<open>str(get_path())\<close>, the signals
  it has and its children.
\<close>

datatype node = Node (get_name: string) (get_class: string) (get_path: string)
  (node_signals: "string list") (get_children: "node list")

text \<open>
  The engine built-ins the bridge calls, as they answer during one activation of the
  script (one handler call, or one resumption of a coroutine). They are not code of the
  bridge, so they are parameters of the model:
  \<open>JSON.parse_string\<close> (\<open>None\<close> where it returns null for unparseable text), \<open>str\<close>,
  \<open>int\<close> (\<open>None\<close> where the conversion raises), the truth value of a Variant in a
  condition, \<open>get_node_or_null\<close>, \<open>Node.is_class\<close>, \<open>String.match\<close>,
  \<open>Node.is_in_group\<close>, \<open>Expression.parse\<close> (\<open>Some\<close> error text when it fails),
  \<open>Expression.execute\<close> (\<open>Inl\<close> the error text when \<open>has_execute_failed()\<close>),
  \<open>Object.callv\<close>, \<open>Object.get\<close>, \<open>is_instance_valid\<close>, the clock
  (\<open>get_ticks_msec k\<close> is what the \<open>k\<close>-th call of \<open>Time.get_ticks_msec()\<close> in this
  activation returns), \<open>float\<close> (\<open>None\<close> where the conversion raises),
  \<open>String.strip_edges\<close>, \<open>String.to_upper\<close>, and the value of the constant
  \<open>KEY_<NAME>\<close>.
\<close>

record engine =
  parse_string :: "string \<Rightarrow> variant option"
  str :: "variant \<Rightarrow> string"
  to_int :: "variant \<Rightarrow> int option"
  booleanize :: "variant \<Rightarrow> bool"
  get_node_or_null :: "string \<Rightarrow> node option"
  is_class :: "node \<Rightarrow> string \<Rightarrow> bool"
  match_pattern :: "string \<Rightarrow> string \<Rightarrow> bool"
  is_in_group :: "node \<Rightarrow> string \<Rightarrow> bool"
  expr_parse :: "string \<Rightarrow> string option"
  expr_execute :: "string \<Rightarrow> node \<Rightarrow> string + variant"
  callv :: "node \<Rightarrow> string \<Rightarrow> variant list \<Rightarrow> variant"
  node_get :: "node \<Rightarrow> variant \<Rightarrow> variant"
  is_instance_valid :: "node \<Rightarrow> bool"
  get_ticks_msec :: "nat \<Rightarrow> int"
  to_float :: "variant \<Rightarrow> rat option"
  strip_edges :: "string \<Rightarrow> string"
  to_upper :: "string \<Rightarrow> string"
  key_constant :: "string \<Rightarrow> int"

section \<open>Variant serialization\<close>

text \<open>\<open>value == null\<close>: the null Variant and a null object reference.\<close>

definition is_null :: "variant \<Rightarrow> bool" where
  "is_null v = (v = VNil \<or> v = VObject None)"

definition xy :: "rat \<Rightarrow> rat \<Rightarrow> variant" where
  "xy x y = dict_of [(''x'', VFloat x), (''y'', VFloat y)]"

text \<open>\<open>_variant_to_json\<close>.\<close>

fun variant_to_json :: "engine \<Rightarrow> variant \<Rightarrow> variant" where
  "variant_to_json E VNil = VNil"
| "variant_to_json E (VObject None) = VNil"
| "variant_to_json E (VBool b) = VBool b"
| "variant_to_json E (VInt n) = VInt n"
| "variant_to_json E (VFloat f) = VFloat f"
| "variant_to_json E (VString s) = VString s"
| "variant_to_json E (VVector2 x y) = xy x y"
| "variant_to_json E (VVector3 x y z) = dict_of [(''x'', VFloat x), (''y'', VFloat y), (''z'', VFloat z)]"
| "variant_to_json E (VColor r g b a) =
     dict_of [(''r'', VFloat r), (''g'', VFloat g), (''b'', VFloat b), (''a'', VFloat a)]"
| "variant_to_json E (VRect2 px py sx sy) = dict_of [(''position'', xy px py), (''size'', xy sx sy)]"
| "variant_to_json E (VTransform2D ox oy xx xy' yx yy) =
     dict_of [(''origin'', xy ox oy), (''x'', xy xx xy'), (''y'', xy yx yy)]"
| "variant_to_json E (VNodePath s) = VString (str E (VNodePath s))"
| "variant_to_json E (VRID s) = VString (str E (VRID s))"
| "variant_to_json E (VObject (Some (cls, pth))) =
     dict_of ((''_class'', VString cls) #
       (case pth of None \<Rightarrow> [] | Some p \<Rightarrow> [(''_path'', VString p)]))"
| "variant_to_json E (VArray xs) = VArray (map (variant_to_json E) xs)"
| "variant_to_json E (VDictionary kvs) =
     VDictionary (foldl (\<lambda>d (k, v). dict_set d (VString (str E k)) v) []
       (map (\<lambda>(k, v). (k, variant_to_json E v)) kvs))"
| "variant_to_json E (VOther t s) =
     dict_of [(''_type'', VString t), (''_string'', VString (str E (VOther t s)))]"

section \<open>Bridge state, responses and effects\<close>

datatype ready_state = STATE_CONNECTING | STATE_OPEN | STATE_CLOSING | STATE_CLOSED

text \<open>A \<open>WebSocketPeer\<close>: which connection it is and its \<open>get_ready_state()\<close>.\<close>

record peer =
  peer_id :: nat
  ready :: ready_state

text \<open>
  The response dictionary built by \<open>_send_raw_response\<close>: \<open>{"id", "error"}\<close> when the
  error is not null, \<open>{"id", "result"}\<close> otherwise.
\<close>

datatype response =
    Result variant variant
  | Error variant variant

fun response_id :: "response \<Rightarrow> variant" where
  "response_id (Result i r) = i"
| "response_id (Error i e) = i"

text \<open>Input events handed to \<open>Input.parse_input_event\<close>.\<close>

datatype input_event =
    KeyEvent int bool bool bool bool bool
  | MouseMotionEvent rat rat
  | MouseButtonEvent rat rat int bool
  | DragMotionEvent rat rat rat rat int int int

text \<open>
  What the bridge does to the world outside its own fields, in order: a text sent on a
  peer, a node looked up by path, an expression parsed or executed, a method called, a
  property read, an input event injected, a signal attached or disconnected, a timer
  created (its duration in milliseconds), a peer closed.
\<close>

datatype effect =
    Sent nat response
  | NodeLookup string
  | ExprParse string
  | ExprExecute string string
  | Callv string string "variant list"
  | NodeGet string variant
  | SignalConnect string string
  | SignalDisconnect string string
  | ParseInputEvent input_event
  | CreateTimer int
  | PeerClosed nat

record bridge =
  active :: bool
  unsafe_mode :: bool
  ws_peer :: "peer option"
  pending_responses :: "string set"
  effects :: "effect list"

definition do_effect :: "effect \<Rightarrow> bridge \<Rightarrow> bridge" where
  "do_effect e b = b\<lparr>effects := effects b @ [e]\<rparr>"

subsection \<open>Response helpers\<close>

text \<open>
  \<open>_ws_peer.get_ready_state()\<close> and \<open>_ws_peer.send_text(...)\<close> are calls on an instance:
  on null they raise.
\<close>

definition get_ready_state :: "peer option \<Rightarrow> script_error + ready_state" where
  "get_ready_state p = (case p of None \<Rightarrow> Inl NullInstance | Some q \<Rightarrow> Inr (ready q))"

definition send_text :: "response \<Rightarrow> bridge \<Rightarrow> script_error + bridge" where
  "send_text r b =
     (case ws_peer b of
        None \<Rightarrow> Inl NullInstance
      | Some q \<Rightarrow> Inr (do_effect (Sent (peer_id q) r) b))"

text \<open>
  \<open>_send_raw_response(id, result, error)\<close>. The guard is
  \<open>not _ws_peer or _ws_peer.get_ready_state() != STATE_OPEN\<close>, with \<open>or\<close> short-circuit.
\<close>

definition send_raw_response ::
  "variant \<Rightarrow> variant \<Rightarrow> variant \<Rightarrow> bridge \<Rightarrow> script_error + bridge" where
  "send_raw_response i result error b =
     (if ws_peer b = None then Inr b
      else and_then (get_ready_state (ws_peer b)) (\<lambda>st.
        if st \<noteq> STATE_OPEN then Inr b
        else send_text (if is_null error then Result i result else Error i error) b))"

definition error_dict :: "int \<Rightarrow> string \<Rightarrow> variant" where
  "error_dict code message = dict_of [(''code'', VInt code), (''message'', VString message)]"

definition erase_pending :: "engine \<Rightarrow> variant \<Rightarrow> bridge \<Rightarrow> bridge" where
  "erase_pending E i b = b\<lparr>pending_responses := pending_responses b - {str E i}\<rparr>"

definition mark_pending :: "engine \<Rightarrow> variant \<Rightarrow> bridge \<Rightarrow> bridge" where
  "mark_pending E i b = b\<lparr>pending_responses := insert (str E i) (pending_responses b)\<rparr>"

definition send_response :: "engine \<Rightarrow> variant \<Rightarrow> variant \<Rightarrow> bridge \<Rightarrow> script_error + bridge" where
  "send_response E i result b =
     and_then (send_raw_response i result VNil b) (\<lambda>b'. Inr (erase_pending E i b'))"

definition send_error :: "engine \<Rightarrow> variant \<Rightarrow> int \<Rightarrow> string \<Rightarrow> bridge \<Rightarrow> script_error + bridge" where
  "send_error E i code message b =
     and_then (send_raw_response i VNil (error_dict code message) b)
       (\<lambda>b'. Inr (erase_pending E i b'))"

subsection \<open>Reading parameters\<close>

text \<open>
  Typed assignments \<open>var x: String = ...\<close>, \<open>var x: Array = ...\<close>, and a \<open>Dictionary\<close>
  parameter: they raise on a value of another type. The values read here come from
  \<open>JSON.parse_string\<close>.
\<close>

definition as_String :: "variant \<Rightarrow> script_error + string" where
  "as_String v = (case v of VString s \<Rightarrow> Inr s | _ \<Rightarrow> Inl TypeMismatch)"

definition as_Array :: "variant \<Rightarrow> script_error + variant list" where
  "as_Array v = (case v of VArray xs \<Rightarrow> Inr xs | _ \<Rightarrow> Inl TypeMismatch)"

definition as_Dictionary :: "variant \<Rightarrow> script_error + dict" where
  "as_Dictionary v = (case v of VDictionary d \<Rightarrow> Inr d | _ \<Rightarrow> Inl TypeMismatch)"

definition float_of :: "engine \<Rightarrow> variant \<Rightarrow> script_error + rat" where
  "float_of E v = (case to_float E v of None \<Rightarrow> Inl TypeMismatch | Some x \<Rightarrow> Inr x)"

definition int_of :: "engine \<Rightarrow> variant \<Rightarrow> script_error + int" where
  "int_of E v = (case to_int E v of None \<Rightarrow> Inl TypeMismatch | Some n \<Rightarrow> Inr n)"

definition get_String :: "dict \<Rightarrow> string \<Rightarrow> string \<Rightarrow> script_error + string" where
  "get_String params k d = as_String (dict_get params (VString k) (VString d))"

definition get_int :: "engine \<Rightarrow> dict \<Rightarrow> string \<Rightarrow> int \<Rightarrow> script_error + int" where
  "get_int E params k d = int_of E (dict_get params (VString k) (VInt d))"

definition lookup_node :: "engine \<Rightarrow> string \<Rightarrow> bridge \<Rightarrow> node option \<times> bridge" where
  "lookup_node E path b = (get_node_or_null E path, do_effect (NodeLookup path) b)"

section \<open>JSON-RPC dispatch\<close>

text \<open>
  A function that raises stops there, and the fields of the script stay as they are at
  that moment. \<open>abort_in b m\<close> is the outcome \<open>m\<close> of a step taken in state \<open>b\<close> that
  changes nothing before it raises: the error comes with the state \<open>b\<close>.
\<close>

definition abort_in :: "bridge \<Rightarrow> script_error + 'a \<Rightarrow> (script_error \<times> bridge) + 'a" where
  "abort_in b m = (case m of Inl e \<Rightarrow> Inl (e, b) | Inr x \<Rightarrow> Inr x)"

text \<open>
  \<open>_handle_packet\<close>. The call of \<open>_dispatch(id, method, params)\<close> at its end is the
  parameter \<open>dispatch\<close>; its \<open>params: Dictionary\<close> is typed. The outcome of \<open>dispatch\<close>
  is the bridge when \<open>_dispatch\<close> has returned, or the error that a handler raised
  with the bridge as the aborted handler left it.
\<close>

definition handle_packet ::
  "engine \<Rightarrow> (variant \<Rightarrow> string \<Rightarrow> dict \<Rightarrow> bridge \<Rightarrow> (script_error \<times> bridge) + bridge) \<Rightarrow> string
     \<Rightarrow> bridge \<Rightarrow> (script_error \<times> bridge) + bridge" where
  "handle_packet E dispatch text b =
     (case parse_string E text of
        None \<Rightarrow>
          abort_in b
            (send_raw_response VNil VNil (error_dict (- 32700) ''Parse error: invalid JSON'') b)
      | Some parsed \<Rightarrow>
          if is_null parsed then
            abort_in b
              (send_raw_response VNil VNil (error_dict (- 32700) ''Parse error: invalid JSON'') b)
          else
            (case parsed of
               VDictionary d \<Rightarrow>
                 (let i = dict_get d (VString ''id'') VNil in
                  and_then (abort_in b (as_String (dict_get d (VString ''method'') (VString []))))
                    (\<lambda>method.
                    let params = dict_get d (VString ''params'') (VDictionary []) in
                    if method = [] then
                      abort_in b
                        (send_raw_response i VNil
                          (error_dict (- 32600) ''Invalid request: missing method'') b)
                    else and_then (abort_in b (as_Dictionary params))
                           (\<lambda>p. dispatch i method p b)))
             | _ \<Rightarrow>
                 abort_in b
                   (send_raw_response VNil VNil
                     (error_dict (- 32700) ''Parse error: expected JSON object'') b)))"

section \<open>Scene-tree search\<close>

definition MAX_FIND_RESULTS :: nat where
  "MAX_FIND_RESULTS = 1000"

definition node_matches :: "engine \<Rightarrow> node \<Rightarrow> string \<Rightarrow> string \<Rightarrow> string \<Rightarrow> bool" where
  "node_matches E n type_filter name_pattern group_filter =
     (let m0 = True;
          m1 = (if type_filter \<noteq> [] \<and> \<not> is_class E n type_filter then False else m0);
          m2 = (if name_pattern \<noteq> [] \<and> \<not> match_pattern E (get_name n) name_pattern
                then False else m1);
          m3 = (if group_filter \<noteq> [] \<and> \<not> is_in_group E n group_filter then False else m2)
      in m3)"

definition node_entry :: "node \<Rightarrow> variant" where
  "node_entry n = dict_of [(''name'', VString (get_name n)), (''type'', VString (get_class n)),
     (''path'', VString (get_path n))]"

text \<open>
  \<open>_find_nodes_recursive\<close>: \<open>results\<close> is the array passed by reference, returned here.
  The size check is made once, on entry; the loop over the children runs in any case.
\<close>

fun find_nodes_recursive ::
  "engine \<Rightarrow> node \<Rightarrow> string \<Rightarrow> string \<Rightarrow> string \<Rightarrow> variant list \<Rightarrow> variant list" where
  "find_nodes_recursive E (Node nm cl pa sg cs) type_filter name_pattern group_filter results =
     (if length results \<ge> MAX_FIND_RESULTS then results
      else
        foldl (\<lambda>res child. find_nodes_recursive E child type_filter name_pattern group_filter res)
          (if node_matches E (Node nm cl pa sg cs) type_filter name_pattern group_filter
           then results @ [node_entry (Node nm cl pa sg cs)] else results)
          cs)"

definition handle_find_nodes :: "engine \<Rightarrow> variant \<Rightarrow> dict \<Rightarrow> bridge \<Rightarrow> script_error + bridge" where
  "handle_find_nodes E i params b =
     and_then (get_String params ''root_path'' ''/root'') (\<lambda>root_path.
     and_then (get_String params ''type'' []) (\<lambda>type_filter.
     and_then (get_String params ''name_pattern'' []) (\<lambda>name_pattern.
     and_then (get_String params ''group'' []) (\<lambda>group_filter.
       case lookup_node E root_path b of
         (None, b1) \<Rightarrow> send_error E i (- 32602) (''Node not found: '' @ root_path) b1
       | (Some root_node, b1) \<Rightarrow>
           send_response E i
             (VArray (find_nodes_recursive E root_node type_filter name_pattern group_filter []))
             b1))))"

section \<open>Game state queries\<close>

text \<open>Methods blocked from \<open>call_method\<close> unless \<open>--unsafe\<close> is set.\<close>

definition BLOCKED_METHODS :: "string list" where
  "BLOCKED_METHODS = [''queue_free'', ''free'', ''set_script'', ''remove_child'',
     ''call'', ''callv'', ''call_deferred'', ''emit_signal'']"

definition handle_call_method :: "engine \<Rightarrow> variant \<Rightarrow> dict \<Rightarrow> bridge \<Rightarrow> script_error + bridge" where
  "handle_call_method E i params b =
     and_then (get_String params ''node_path'' []) (\<lambda>node_path.
       if node_path = [] then send_error E i (- 32602) ''Missing required parameter: node_path'' b
       else
     and_then (get_String params ''method_name'' []) (\<lambda>method_name.
       if method_name = [] then
         send_error E i (- 32602) ''Missing required parameter: method_name'' b
       else if \<not> unsafe_mode b \<and> method_name \<in> set BLOCKED_METHODS then
         send_error E i (- 32001)
           (''Method '' @ [CHR 0x27] @ method_name @ [CHR 0x27] @ '' is blocked without --unsafe flag'') b
       else
         (case lookup_node E node_path b of
            (None, b1) \<Rightarrow> send_error E i (- 32602) (''Node not found: '' @ node_path) b1
          | (Some n, b1) \<Rightarrow>
              and_then (as_Array (dict_get params (VString ''args'') (VArray []))) (\<lambda>method_args.
                send_response E i (variant_to_json E (callv E n method_name method_args))
                  (do_effect (Callv (get_path n) method_name method_args) b1)))))"

text \<open>
  The loop \<open>for prop_name in properties: result[prop_name] = ...\<close> of
  \<open>_handle_get_singleton\<close>. \<open>Object.get\<close> takes a \<open>StringName\<close>: the call raises on a
  name that is not a string (the names come from \<open>JSON.parse_string\<close>).
\<close>

fun read_properties ::
  "engine \<Rightarrow> node \<Rightarrow> variant list \<Rightarrow> dict \<Rightarrow> bridge \<Rightarrow> script_error + (dict \<times> bridge)" where
  "read_properties E n [] result b = Inr (result, b)"
| "read_properties E n (prop_name # rest) result b =
     and_then (as_String prop_name) (\<lambda>name.
       read_properties E n rest
         (dict_set result prop_name (variant_to_json E (node_get E n prop_name)))
         (do_effect (NodeGet (get_path n) prop_name) b))"

definition handle_get_singleton :: "engine \<Rightarrow> variant \<Rightarrow> dict \<Rightarrow> bridge \<Rightarrow> script_error + bridge" where
  "handle_get_singleton E i params b =
     and_then (get_String params ''singleton_name'' []) (\<lambda>singleton_name.
       if singleton_name = [] then
         send_error E i (- 32602) ''Missing required parameter: singleton_name'' b
       else if contains singleton_name ''..'' \<or> contains singleton_name ''/'' then
         send_error E i (- 32602) ''Invalid singleton name: must be a simple name, not a path'' b
       else
         (case lookup_node E (''/root/'' @ singleton_name) b of
            (None, b1) \<Rightarrow> send_error E i (- 32602) (''Singleton not found: '' @ singleton_name) b1
          | (Some n, b1) \<Rightarrow>
              and_then (as_Array (dict_get params (VString ''properties'') (VArray []))) (\<lambda>properties.
              and_then (read_properties E n properties [] b1) (\<lambda>(result, b2).
                send_response E i (VDictionary result) b2))))"

definition handle_evaluate_expression ::
  "engine \<Rightarrow> variant \<Rightarrow> dict \<Rightarrow> bridge \<Rightarrow> script_error + bridge" where
  "handle_evaluate_expression E i params b =
     (if \<not> unsafe_mode b then
        send_error E i (- 32001) ''evaluate_expression requires --unsafe flag on TestBridge'' b
      else
     and_then (get_String params ''expression'' []) (\<lambda>expr_string.
       if expr_string = [] then
         send_error E i (- 32602) ''Missing required parameter: expression'' b
       else
     and_then (get_String params ''base_node_path'' ''/root'') (\<lambda>base_path.
       case lookup_node E base_path b of
         (None, b1) \<Rightarrow> send_error E i (- 32602) (''Base node not found: '' @ base_path) b1
       | (Some base_node, b1) \<Rightarrow>
           (case expr_parse E expr_string of
              Some err \<Rightarrow>
                send_error E i (- 32602) (''Expression parse error: '' @ err)
                  (do_effect (ExprParse expr_string) b1)
            | None \<Rightarrow>
                (let b2 = do_effect (ExprExecute expr_string (get_path base_node))
                            (do_effect (ExprParse expr_string) b1)
                 in case expr_execute E expr_string base_node of
                      Inl err \<Rightarrow> send_error E i (- 32603) (''Expression execution failed: '' @ err) b2
                    | Inr result \<Rightarrow> send_response E i (variant_to_json E result) b2)))))"

section \<open>Coroutines\<close>

text \<open>
  A handler that reaches an \<open>await\<close> returns to its caller and leaves a suspended
  coroutine: its local variables and the place to resume. Each constructor is one
  \<open>await\<close> of the script.
  \<^item> \<open>KeyTap id key_string keycode ctrl shift alt meta\<close>: the \<open>await\<close> of the
    \<open>"tap"\<close> branch of \<open>_handle_send_key\<close>;
  \<^item> \<open>MouseDrag id from_x from_y to_x to_y button_index steps i\<close>: the \<open>await\<close> in
    the loop of \<open>_do_mouse_drag\<close>, in iteration \<open>i\<close>;
  \<^item> \<open>PollCondition id expr_string base_node timeout_ms poll_interval_ms start_time
    last_value\<close>: the \<open>await\<close> at the end of the loop of \<open>_poll_condition\<close>;
  \<^item> \<open>WaitFrames id count i\<close>: the \<open>await\<close> in the loop of \<open>_do_wait_frames\<close>, in
    iteration \<open>i\<close>;
  \<^item> \<open>WaitForSignal id node signal_name timeout_ms start_time received signal_args
    attached\<close>: the \<open>await\<close> in the loop of \<open>_do_wait_for_signal\<close>; \<open>attached\<close>
    tells whether the one-shot connection of its lambda is still in place.
\<close>

datatype coroutine =
    KeyTap variant string int bool bool bool bool
  | MouseDrag variant rat rat rat rat int int int
  | PollCondition variant string node int int int variant
  | WaitFrames variant int int
  | WaitForSignal variant node string int int bool "variant list" bool

text \<open>A handler or a resumption ends by returning (\<open>None\<close>) or at the next \<open>await\<close>.\<close>

type_synonym activation = "script_error + (coroutine option \<times> bridge)"

definition returned :: "script_error + bridge \<Rightarrow> activation" where
  "returned m = and_then m (\<lambda>b. Inr (None, b))"

definition suspended :: "coroutine \<Rightarrow> bridge \<Rightarrow> activation" where
  "suspended c b = Inr (Some c, b)"

subsection \<open>Key tap\<close>

fun split_on :: "char \<Rightarrow> string \<Rightarrow> string list" where
  "split_on d [] = [[]]"
| "split_on d (c # cs) =
     (if c = d then [] # split_on d cs
      else (case split_on d cs of p # ps \<Rightarrow> (c # p) # ps | [] \<Rightarrow> [[c]]))"

text \<open>Comparison of strings, by character code.\<close>

fun string_le :: "string \<Rightarrow> string \<Rightarrow> bool" where
  "string_le [] t = True"
| "string_le (c # s) [] = False"
| "string_le (c # s) (d # t) = ((of_char c :: nat) < of_char d \<or> (c = d \<and> string_le s t))"

text \<open>The keys of \<open>_key_map\<close>, in the order of \<open>_build_key_map\<close>.\<close>

definition key_map_keys :: "string list" where
  "key_map_keys = [''Space'', ''Enter'', ''Escape'', ''Tab'', ''Backspace'', ''Delete'', ''Up'',
     ''Down'', ''Left'', ''Right'', ''Home'', ''End'', ''PageUp'', ''PageDown'', ''Insert'',
     ''F1'', ''F2'', ''F3'', ''F4'', ''F5'', ''F6'', ''F7'', ''F8'', ''F9'', ''F10'', ''F11'', ''F12'']"

definition key_map_get :: "engine \<Rightarrow> string \<Rightarrow> int option" where
  "key_map_get E key_name =
     (if key_name \<in> set key_map_keys then Some (key_constant E key_name) else None)"

fun join :: "string \<Rightarrow> string list \<Rightarrow> string" where
  "join sep [] = []"
| "join sep [x] = x"
| "join sep (x # y # ys) = x @ sep @ join sep (y # ys)"

text \<open>The modifier loop: \<open>for i in range(parts.size() - 1)\<close>, as (ctrl, shift, alt, meta).\<close>

definition modifiers :: "engine \<Rightarrow> string list \<Rightarrow> bool \<times> bool \<times> bool \<times> bool" where
  "modifiers E mods =
     foldl (\<lambda>(ctrl, shift, alt, meta) part.
              (let m = strip_edges E part in
               if m = ''Ctrl'' then (True, shift, alt, meta)
               else if m = ''Shift'' then (ctrl, True, alt, meta)
               else if m = ''Alt'' then (ctrl, shift, True, meta)
               else if m = ''Meta'' then (ctrl, shift, alt, True)
               else (ctrl, shift, alt, meta)))
       (False, False, False, False) mods"

text \<open>Resolution of the key code: \<open>_key_map\<close>, then a single character A-Z or 0-9.\<close>

definition resolve_keycode :: "engine \<Rightarrow> string \<Rightarrow> int option" where
  "resolve_keycode E key_name =
     (case key_map_get E key_name of
        Some k \<Rightarrow> Some k
      | None \<Rightarrow>
          if length key_name = 1 then
            (let ch = to_upper E key_name in
             if string_le ''A'' ch \<and> string_le ch ''Z'' then
               (case ch of c # _ \<Rightarrow> Some (of_char c) | [] \<Rightarrow> None)
             else if string_le ''0'' ch \<and> string_le ch ''9'' then
               (case ch of c # _ \<Rightarrow> Some (of_char c) | [] \<Rightarrow> None)
             else None)
          else None)"

definition inject_key :: "int \<Rightarrow> bool \<Rightarrow> bool \<Rightarrow> bool \<Rightarrow> bool \<Rightarrow> bool \<Rightarrow> bridge \<Rightarrow> bridge" where
  "inject_key keycode pressed ctrl shift alt meta b =
     do_effect (ParseInputEvent (KeyEvent keycode pressed ctrl shift alt meta)) b"

definition handle_send_key :: "engine \<Rightarrow> variant \<Rightarrow> dict \<Rightarrow> bridge \<Rightarrow> activation" where
  "handle_send_key E i params b =
     and_then (get_String params ''key'' []) (\<lambda>key_string.
       if key_string = [] then
         returned (send_error E i (- 32602) ''Missing required parameter: key'' b)
       else
     and_then (get_String params ''action'' ''tap'') (\<lambda>action.
     and_then (get_int E params ''hold_ms'' 100) (\<lambda>hold_ms.
       let parts = split_on CHR ''+'' key_string;
           key_name = last parts
       in case modifiers E (butlast parts) of (ctrl, shift, alt, meta) \<Rightarrow>
         (case resolve_keycode E key_name of
            None \<Rightarrow>
              returned (send_error E i (- 32602)
                (''Unknown key: '' @ key_name @ ''. Valid keys: A-Z, 0-9, '' @ join '', '' key_map_keys) b)
          | Some keycode \<Rightarrow>
              if action = ''press'' then
                returned (send_response E i
                  (dict_of [(''action'', VString ''press''), (''key'', VString key_string)])
                  (inject_key keycode True ctrl shift alt meta b))
              else if action = ''release'' then
                returned (send_response E i
                  (dict_of [(''action'', VString ''release''), (''key'', VString key_string)])
                  (inject_key keycode False ctrl shift alt meta b))
              else if action = ''tap'' then
                suspended (KeyTap i key_string keycode ctrl shift alt meta)
                  (do_effect (CreateTimer hold_ms)
                    (inject_key keycode True ctrl shift alt meta (mark_pending E i b)))
              else
                returned (send_error E i (- 32602)
                  (''Invalid action: '' @ action @ ''. Must be press, release, or tap'') b)))))"

subsection \<open>Mouse drag\<close>

definition MOUSE_BUTTON_LEFT :: int where "MOUSE_BUTTON_LEFT = 1"
definition MOUSE_BUTTON_RIGHT :: int where "MOUSE_BUTTON_RIGHT = 2"
definition MOUSE_BUTTON_MIDDLE :: int where "MOUSE_BUTTON_MIDDLE = 3"
definition MOUSE_BUTTON_MASK_LEFT :: int where "MOUSE_BUTTON_MASK_LEFT = 1"
definition MOUSE_BUTTON_MASK_RIGHT :: int where "MOUSE_BUTTON_MASK_RIGHT = 2"
definition MOUSE_BUTTON_MASK_MIDDLE :: int where "MOUSE_BUTTON_MASK_MIDDLE = 4"

definition resolve_mouse_button :: "string \<Rightarrow> int" where
  "resolve_mouse_button name =
     (if name = ''left'' then MOUSE_BUTTON_LEFT
      else if name = ''right'' then MOUSE_BUTTON_RIGHT
      else if name = ''middle'' then MOUSE_BUTTON_MIDDLE
      else 0)"

definition resolve_button_mask :: "int \<Rightarrow> int" where
  "resolve_button_mask button_index =
     (if button_index = MOUSE_BUTTON_LEFT then MOUSE_BUTTON_MASK_LEFT
      else if button_index = MOUSE_BUTTON_RIGHT then MOUSE_BUTTON_MASK_RIGHT
      else if button_index = MOUSE_BUTTON_MIDDLE then MOUSE_BUTTON_MASK_MIDDLE
      else 0)"

text \<open>Integer division of GDScript truncates towards zero.\<close>

definition int_div :: "int \<Rightarrow> int \<Rightarrow> int" where
  "int_div a b = sgn a * sgn b * (\<bar>a\<bar> div \<bar>b\<bar>)"

text \<open>
  The loop of \<open>_do_mouse_drag\<close> from the head of iteration \<open>i\<close> (of \<open>range(1, steps + 1)\<close>)
  to the next \<open>await\<close>, or past the loop to the release and the response.
\<close>

definition mouse_drag_loop ::
  "engine \<Rightarrow> variant \<Rightarrow> rat \<Rightarrow> rat \<Rightarrow> rat \<Rightarrow> rat \<Rightarrow> int \<Rightarrow> int \<Rightarrow> int \<Rightarrow> bridge \<Rightarrow> activation" where
  "mouse_drag_loop E i fx fy tx ty button_index steps k b =
     (if k < steps + 1 then
        suspended (MouseDrag i fx fy tx ty button_index steps k)
          (do_effect (CreateTimer 16)
            (do_effect (ParseInputEvent
               (DragMotionEvent fx fy tx ty k steps (resolve_button_mask button_index))) b))
      else
        returned (send_response E i
          (dict_of [(''action'', VString ''drag''), (''from'', xy fx fy), (''to'', xy tx ty)])
          (do_effect (ParseInputEvent (MouseButtonEvent tx ty button_index False)) b)))"

definition do_mouse_drag ::
  "engine \<Rightarrow> variant \<Rightarrow> rat \<Rightarrow> rat \<Rightarrow> rat \<Rightarrow> rat \<Rightarrow> int \<Rightarrow> int \<Rightarrow> bridge \<Rightarrow> activation" where
  "do_mouse_drag E i fx fy tx ty button_index duration_ms b =
     (let b1 = do_effect (ParseInputEvent (MouseMotionEvent fx fy)) b;
          b2 = do_effect (ParseInputEvent (MouseButtonEvent fx fy button_index True)) b1;
          steps = max 1 (int_div duration_ms 16)
      in mouse_drag_loop E i fx fy tx ty button_index steps 1 b2)"

definition handle_send_mouse_drag :: "engine \<Rightarrow> variant \<Rightarrow> dict \<Rightarrow> bridge \<Rightarrow> activation" where
  "handle_send_mouse_drag E i params b =
     (if \<not> dict_has params (VString ''from_x'') \<or> \<not> dict_has params (VString ''from_y'')
         \<or> \<not> dict_has params (VString ''to_x'') \<or> \<not> dict_has params (VString ''to_y'') then
        returned (send_error E i (- 32602)
          ''Missing required parameters: from_x, from_y, to_x, to_y'' b)
      else
     and_then (float_of E (dict_get params (VString ''from_x'') VNil)) (\<lambda>fx.
     and_then (float_of E (dict_get params (VString ''from_y'') VNil)) (\<lambda>fy.
     and_then (float_of E (dict_get params (VString ''to_x'') VNil)) (\<lambda>tx.
     and_then (float_of E (dict_get params (VString ''to_y'') VNil)) (\<lambda>ty.
     and_then (get_String params ''button'' ''left'') (\<lambda>button_name.
     and_then (get_int E params ''duration_ms'' 500) (\<lambda>duration_ms.
       let button_index = resolve_mouse_button button_name in
       if button_index = 0 then
         returned (send_error E i (- 32602) (''Invalid button: '' @ button_name) b)
       else do_mouse_drag E i fx fy tx ty button_index duration_ms (mark_pending E i b))))))))"

subsection \<open>Condition poll\<close>

text \<open>
  One iteration of the loop of \<open>_poll_condition\<close>, from its head to the \<open>await\<close> or a
  \<open>return\<close>. \<open>k\<close> is the number of clock readings already made in this activation.
\<close>

definition poll_iteration ::
  "engine \<Rightarrow> nat \<Rightarrow> variant \<Rightarrow> string \<Rightarrow> node \<Rightarrow> int \<Rightarrow> int \<Rightarrow> int \<Rightarrow> variant \<Rightarrow> bridge
     \<Rightarrow> activation" where
  "poll_iteration E k i expr_string base_node timeout_ms poll_interval_ms start_time last_value b =
     (let elapsed = get_ticks_msec E k - start_time in
      if elapsed \<ge> timeout_ms then
        returned (send_response E i
          (dict_of [(''satisfied'', VBool False), (''timeout'', VBool True),
                    (''last_value'', variant_to_json E last_value), (''elapsed_ms'', VInt elapsed)]) b)
      else if \<not> is_instance_valid E base_node then
        returned (send_error E i (- 32603) ''Base node was freed (scene changed during wait)'' b)
      else
        (case expr_parse E expr_string of
           Some err \<Rightarrow>
             returned (send_error E i (- 32603) (''Expression error during polling: '' @ err)
               (do_effect (ExprParse expr_string) b))
         | None \<Rightarrow>
             (let b2 = do_effect (ExprExecute expr_string (get_path base_node))
                         (do_effect (ExprParse expr_string) b)
              in case expr_execute E expr_string base_node of
                   Inl err \<Rightarrow>
                     returned (send_error E i (- 32603) (''Expression execution failed: '' @ err) b2)
                 | Inr result \<Rightarrow>
                     if booleanize E result then
                       returned (send_response E i
                         (dict_of [(''satisfied'', VBool True), (''value'', variant_to_json E result),
                                   (''elapsed_ms'', VInt (get_ticks_msec E (Suc k) - start_time))]) b2)
                     else
                       suspended
                         (PollCondition i expr_string base_node timeout_ms poll_interval_ms
                            start_time result)
                         (do_effect (CreateTimer poll_interval_ms) b2))))"

definition poll_condition ::
  "engine \<Rightarrow> variant \<Rightarrow> string \<Rightarrow> node \<Rightarrow> int \<Rightarrow> int \<Rightarrow> bridge \<Rightarrow> activation" where
  "poll_condition E i expr_string base_node timeout_ms poll_interval_ms b =
     (let start_time = get_ticks_msec E 0
      in poll_iteration E 1 i expr_string base_node timeout_ms poll_interval_ms start_time VNil b)"

definition handle_wait_for_condition :: "engine \<Rightarrow> variant \<Rightarrow> dict \<Rightarrow> bridge \<Rightarrow> activation" where
  "handle_wait_for_condition E i params b =
     (if \<not> unsafe_mode b then
        returned (send_error E i (- 32001)
          ''wait_for_condition uses expression evaluation and requires --unsafe flag'' b)
      else
     and_then (get_String params ''expression'' []) (\<lambda>expr_string.
       if expr_string = [] then
         returned (send_error E i (- 32602) ''Missing required parameter: expression'' b)
       else
     and_then (get_int E params ''timeout_ms'' 5000) (\<lambda>timeout_ms.
     and_then (get_int E params ''poll_interval_ms'' 100) (\<lambda>requested.
     let poll_interval_ms = max 16 requested in
     and_then (get_String params ''base_node_path'' ''/root'') (\<lambda>base_path.
       case lookup_node E base_path b of
         (None, b1) \<Rightarrow>
           returned (send_error E i (- 32602) (''Base node not found: '' @ base_path) b1)
       | (Some base_node, b1) \<Rightarrow>
           (case expr_parse E expr_string of
              Some err \<Rightarrow>
                returned (send_error E i (- 32602) (''Expression parse error: '' @ err)
                  (do_effect (ExprParse expr_string) b1))
            | None \<Rightarrow>
                poll_condition E i expr_string base_node timeout_ms poll_interval_ms
                  (mark_pending E i (do_effect (ExprParse expr_string) b1))))))))"

subsection \<open>Frame wait\<close>

text \<open>
  The loop \<open>for i in range(count): await process_frame\<close> of \<open>_do_wait_frames\<close>, from
  the head of iteration \<open>k\<close>.
\<close>

definition wait_frames_loop :: "engine \<Rightarrow> variant \<Rightarrow> int \<Rightarrow> int \<Rightarrow> bridge \<Rightarrow> activation" where
  "wait_frames_loop E i count k b =
     (if k < count then suspended (WaitFrames i count k) b
      else returned (send_response E i (dict_of [(''frames_waited'', VInt count)]) b))"

definition handle_wait_frames :: "engine \<Rightarrow> variant \<Rightarrow> dict \<Rightarrow> bridge \<Rightarrow> activation" where
  "handle_wait_frames E i params b =
     and_then (get_int E params ''count'' 1) (\<lambda>count.
       if count < 1 then returned (send_error E i (- 32602) ''count must be >= 1'' b)
       else wait_frames_loop E i count 0 (mark_pending E i b))"

subsection \<open>Signal wait\<close>

text \<open>
  The lambda attached to the signal,
  \<open>func(a1 = null, a2 = null, a3 = null, a4 = null)\<close>. A GDScript lambda captures the
  local variables of the enclosing function by value, when it is created: its
  \<open>received = true\<close> assigns the lambda's own copy, and the \<open>received\<close> that the loop of
  \<open>_do_wait_for_signal\<close> tests is never changed by it. \<open>signal_args\<close> is an \<open>Array\<close>, shared
  by reference, so the \<open>append\<close> is seen by the enclosing function. A call with more
  than four arguments fails and the body does not run.
  The function returns the enclosing function's \<open>received\<close> and \<open>signal_args\<close> after
  the call.
\<close>

definition signal_callable ::
  "engine \<Rightarrow> variant list \<Rightarrow> bool \<Rightarrow> variant list \<Rightarrow> bool \<times> variant list" where
  "signal_callable E args received signal_args =
     (if length args > 4 then (received, signal_args)
      else
        (let a = args @ replicate (4 - length args) VNil
         in (received, signal_args @ map (variant_to_json E) (filter (\<lambda>arg. \<not> is_null arg) a))))"

text \<open>
  The node emits the signal with \<open>args\<close> while the coroutine is suspended: a connection
  made with \<open>CONNECT_ONE_SHOT\<close> is removed and its callable is called.
\<close>

fun signal_emitted :: "engine \<Rightarrow> variant list \<Rightarrow> coroutine \<Rightarrow> coroutine" where
  "signal_emitted E args (WaitForSignal i n signal_name timeout_ms start_time received signal_args attached) =
     (if attached then
        (case signal_callable E args received signal_args of
           (received', signal_args') \<Rightarrow>
             WaitForSignal i n signal_name timeout_ms start_time received' signal_args' False)
      else WaitForSignal i n signal_name timeout_ms start_time received signal_args attached)"
| "signal_emitted E args c = c"

text \<open>
  The loop \<open>while not received\<close> of \<open>_do_wait_for_signal\<close>, from its head to the
  \<open>await\<close> or a \<open>return\<close>, and the response after the loop.
\<close>

definition wait_for_signal_loop ::
  "engine \<Rightarrow> nat \<Rightarrow> variant \<Rightarrow> node \<Rightarrow> string \<Rightarrow> int \<Rightarrow> int \<Rightarrow> bool \<Rightarrow> variant list \<Rightarrow> bool
     \<Rightarrow> bridge \<Rightarrow> activation" where
  "wait_for_signal_loop E k i n signal_name timeout_ms start_time received signal_args attached b =
     (if \<not> received then
        (if \<not> is_instance_valid E n then
           returned (send_error E i (- 32603) ''Node was freed (scene changed during wait)'' b)
         else
           (let elapsed = get_ticks_msec E k - start_time in
            if elapsed \<ge> timeout_ms then
              returned (send_response E i
                (dict_of [(''received'', VBool False), (''timeout'', VBool True),
                          (''elapsed_ms'', VInt elapsed)])
                (if is_instance_valid E n \<and> attached
                 then do_effect (SignalDisconnect (get_path n) signal_name) b else b))
            else
              suspended
                (WaitForSignal i n signal_name timeout_ms start_time received signal_args attached)
                (do_effect (CreateTimer 16) b)))
      else
        returned (send_response E i
          (dict_of [(''received'', VBool True), (''args'', VArray signal_args),
                    (''elapsed_ms'', VInt (get_ticks_msec E k - start_time))]) b))"

definition do_wait_for_signal ::
  "engine \<Rightarrow> variant \<Rightarrow> node \<Rightarrow> string \<Rightarrow> int \<Rightarrow> bridge \<Rightarrow> activation" where
  "do_wait_for_signal E i n signal_name timeout_ms b =
     (let received = False;
          signal_args = [];
          b1 = do_effect (SignalConnect (get_path n) signal_name) b;
          start_time = get_ticks_msec E 0
      in wait_for_signal_loop E 1 i n signal_name timeout_ms start_time received signal_args True b1)"

definition handle_wait_for_signal :: "engine \<Rightarrow> variant \<Rightarrow> dict \<Rightarrow> bridge \<Rightarrow> activation" where
  "handle_wait_for_signal E i params b =
     and_then (get_String params ''node_path'' []) (\<lambda>node_path.
       if node_path = [] then
         returned (send_error E i (- 32602) ''Missing required parameter: node_path'' b)
       else
     and_then (get_String params ''signal_name'' []) (\<lambda>signal_name.
       if signal_name = [] then
         returned (send_error E i (- 32602) ''Missing required parameter: signal_name'' b)
       else
     and_then (get_int E params ''timeout_ms'' 5000) (\<lambda>timeout_ms.
       case lookup_node E node_path b of
         (None, b1) \<Rightarrow> returned (send_error E i (- 32602) (''Node not found: '' @ node_path) b1)
       | (Some n, b1) \<Rightarrow>
           if signal_name \<notin> set (node_signals n) then
             returned (send_error E i (- 32602)
               (''Signal not found: '' @ signal_name @ '' on node '' @ node_path) b1)
           else do_wait_for_signal E i n signal_name timeout_ms (mark_pending E i b1))))"

subsection \<open>Resumption\<close>

text \<open>
  The awaited signal of a suspended coroutine fires (the timeout of its timer, or
  \<open>process_frame\<close>): the script runs on from the \<open>await\<close> to the next one or to a return.
\<close>

fun resume :: "engine \<Rightarrow> coroutine \<Rightarrow> bridge \<Rightarrow> activation" where
  "resume E (KeyTap i key_string keycode ctrl shift alt meta) b =
     returned (send_response E i
       (dict_of [(''action'', VString ''tap''), (''key'', VString key_string)])
       (inject_key keycode False ctrl shift alt meta b))"
| "resume E (MouseDrag i fx fy tx ty button_index steps k) b =
     mouse_drag_loop E i fx fy tx ty button_index steps (k + 1) b"
| "resume E (PollCondition i expr_string base_node timeout_ms poll_interval_ms start_time last_value) b =
     poll_iteration E 0 i expr_string base_node timeout_ms poll_interval_ms start_time last_value b"
| "resume E (WaitFrames i count k) b = wait_frames_loop E i count (k + 1) b"
| "resume E (WaitForSignal i n signal_name timeout_ms start_time received signal_args attached) b =
     wait_for_signal_loop E 0 i n signal_name timeout_ms start_time received signal_args attached b"

text \<open>The request id a suspended coroutine will answer.\<close>

fun coroutine_id :: "coroutine \<Rightarrow> variant" where
  "coroutine_id (KeyTap i key_string keycode ctrl shift alt meta) = i"
| "coroutine_id (MouseDrag i fx fy tx ty button_index steps k) = i"
| "coroutine_id (PollCondition i expr_string base_node timeout_ms poll_interval_ms start_time last_value) = i"
| "coroutine_id (WaitFrames i count k) = i"
| "coroutine_id (WaitForSignal i n signal_name timeout_ms start_time received signal_args attached) = i"

section \<open>Connections\<close>

text \<open>
  The first half of \<open>_process\<close>: a connection is available and \<open>take_connection()\<close>
  returned it; \<open>accepted\<close> tells whether \<open>accept_stream\<close> returned \<open>OK\<close>.
\<close>

definition accept_connection :: "nat \<Rightarrow> bool \<Rightarrow> bridge \<Rightarrow> bridge" where
  "accept_connection new_id accepted b =
     (let b1 = (case ws_peer b of
                  Some old \<Rightarrow> (do_effect (PeerClosed (peer_id old)) b)\<lparr>ws_peer := None\<rparr>
                | None \<Rightarrow> b);
          b2 = b1\<lparr>ws_peer := Some \<lparr>peer_id = new_id, ready = STATE_CONNECTING\<rparr>\<rparr>
      in if accepted then b2 else b2\<lparr>ws_peer := None\<rparr>)"

text \<open>
  The loop \<open>while _ws_peer.get_available_packet_count() > 0: ... _handle_packet(text)\<close>.
  A packet whose handling raises does not end the loop: the error is reported and the
  next packet is handled, in the state the aborted handling left. The result has the
  errors raised, in order.
\<close>

fun handle_packets ::
  "engine \<Rightarrow> (variant \<Rightarrow> string \<Rightarrow> dict \<Rightarrow> bridge \<Rightarrow> (script_error \<times> bridge) + bridge)
     \<Rightarrow> string list \<Rightarrow> bridge \<Rightarrow> script_error list \<times> bridge" where
  "handle_packets E dispatch [] b = ([], b)"
| "handle_packets E dispatch (text # texts) b =
     (case handle_packet E dispatch text b of
        Inr b' \<Rightarrow> handle_packets E dispatch texts b'
      | Inl (e, b') \<Rightarrow>
          (case handle_packets E dispatch texts b' of (es, b'') \<Rightarrow> (e # es, b'')))"

text \<open>
  \<open>_process\<close>. \<open>incoming\<close> is the connection taken from the TCP server, if one is
  available; \<open>polled\<close> is the state of the peer after \<open>poll()\<close>; \<open>packets\<close> are the
  packets available on it. The result has the errors raised while the packets were
  handled.
\<close>

definition process ::
  "engine \<Rightarrow> (variant \<Rightarrow> string \<Rightarrow> dict \<Rightarrow> bridge \<Rightarrow> (script_error \<times> bridge) + bridge)
     \<Rightarrow> (nat \<times> bool) option \<Rightarrow> ready_state \<Rightarrow> string list \<Rightarrow> bridge
     \<Rightarrow> script_error list \<times> bridge" where
  "process E dispatch incoming polled packets b =
     (if \<not> active b then ([], b)
      else
        (let b1 = (case incoming of
                     None \<Rightarrow> b
                   | Some (new_id, accepted) \<Rightarrow> accept_connection new_id accepted b)
         in case ws_peer b1 of
              None \<Rightarrow> ([], b1)
            | Some q \<Rightarrow>
                (let b2 = b1\<lparr>ws_peer := Some (q\<lparr>ready := polled\<rparr>)\<rparr>
                 in if polled = STATE_OPEN then handle_packets E dispatch packets b2
                    else if polled = STATE_CLOSED then ([], b2\<lparr>ws_peer := None\<rparr>)
                    else ([], b2))))"

section \<open>The controller client\<close>

text \<open>
  \<open>BridgeClient\<close>, in TypeScript. A value produced by \<open>JSON.parse\<close>, or \<open>undefined\<close>.
\<close>

datatype js =
    JUndefined
  | JNull
  | JBool bool
  | JNumber rat
  | JString string
  | JArray "js list"
  | JObject "(string \<times> js) list"

datatype js_error = TypeError

text \<open>
  The property access \<open>v.name\<close>, for the names the client reads (\<open>id\<close>, \<open>error\<close>,
  \<open>result\<close>, \<open>code\<close>, \<open>message\<close>): it throws on \<open>null\<close> and \<open>undefined\<close>, and is
  \<open>undefined\<close> on a value that has no such property.
\<close>

definition get_prop :: "js \<Rightarrow> string \<Rightarrow> js_error + js" where
  "get_prop v name =
     (case v of
        JUndefined \<Rightarrow> Inl TypeError
      | JNull \<Rightarrow> Inl TypeError
      | JObject props \<Rightarrow> Inr (case map_of props name of None \<Rightarrow> JUndefined | Some x \<Rightarrow> x)
      | _ \<Rightarrow> Inr JUndefined)"

text \<open>The truth value of a value in a condition.\<close>

definition truthy :: "js \<Rightarrow> bool" where
  "truthy v =
     (case v of
        JUndefined \<Rightarrow> False
      | JNull \<Rightarrow> False
      | JBool b \<Rightarrow> b
      | JNumber r \<Rightarrow> r \<noteq> 0
      | JString s \<Rightarrow> s \<noteq> []
      | _ \<Rightarrow> True)"

text \<open>
  The built-ins of the JavaScript runtime, parameters of the model: \<open>JSON.parse\<close>
  (\<open>None\<close> where it throws) and \<open>String(v)\<close> on a value that is not a string.
\<close>

record runtime =
  JSON_parse :: "string \<Rightarrow> js option"
  to_string :: "js \<Rightarrow> string"

definition String_of :: "runtime \<Rightarrow> js \<Rightarrow> string" where
  "String_of J v = (case v of JString s \<Rightarrow> s | _ \<Rightarrow> to_string J v)"

text \<open>
  The \<open>Error\<close> a promise is rejected with, by the place that makes it: the request
  timeout (method and \<open>timeoutMs\<close>), an error response (\<open>error.code\<close> and
  \<open>error.message\<close>), \<open>disconnect()\<close>, the \<open>close\<close> and \<open>error\<close> events of the socket, and
  \<open>send\<close> without a connection.
\<close>

datatype client_error =
    RequestTimedOut string int
  | TestBridgeError js js
  | DisconnectedFromGame
  | ConnectionClosed
  | WebSocketError string
  | NotConnected

datatype settlement = Resolved js | Rejected client_error

text \<open>
  A \<open>PendingRequest\<close> holds the \<open>resolve\<close> and \<open>reject\<close> of one promise and a timer
  handle. Promises and timers are named by the request id they were made for.
\<close>

record pending_request =
  promise :: string
  timeout :: string

text \<open>
  A \<open>Map\<close> keeps its entries in insertion order: \<open>m.get(k)\<close> is \<open>map_of m k\<close>,
  \<open>m.has(k)\<close> is \<open>map_of m k \<noteq> None\<close>.
\<close>

fun Map_set :: "('k \<times> 'v) list \<Rightarrow> 'k \<Rightarrow> 'v \<Rightarrow> ('k \<times> 'v) list" where
  "Map_set [] k v = [(k, v)]"
| "Map_set ((k', v') # m) k v = (if k' = k then (k, v) # m else (k', v') # Map_set m k v)"

definition Map_delete :: "('k \<times> 'v) list \<Rightarrow> 'k \<Rightarrow> ('k \<times> 'v) list" where
  "Map_delete m k = filter (\<lambda>(k', v). k' \<noteq> k) m"

text \<open>
  The state of a client: whether \<open>isConnected()\<close> holds, the map \<open>pendingRequests\<close>,
  the armed timers with what their callbacks captured (method and \<open>timeoutMs\<close>), every
  call of a \<open>resolve\<close> or \<open>reject\<close> so far with the promise it belongs to, the lines
  written by \<open>console.error\<close>, and the requests written to the socket.
\<close>

record client =
  is_connected :: bool
  pendingRequests :: "(string \<times> pending_request) list"
  timers :: "string \<rightharpoonup> string \<times> int"
  settlements :: "(string \<times> settlement) list"
  console :: "string list"
  written :: "(string \<times> string \<times> js) list"

definition settle :: "string \<Rightarrow> settlement \<Rightarrow> client \<Rightarrow> client" where
  "settle p s c = c\<lparr>settlements := settlements c @ [(p, s)]\<rparr>"

definition console_error :: "string \<Rightarrow> client \<Rightarrow> client" where
  "console_error line c = c\<lparr>console := console c @ [line]\<rparr>"

definition clearTimeout :: "string \<Rightarrow> client \<Rightarrow> client" where
  "clearTimeout t c = c\<lparr>timers := (timers c)(t := None)\<rparr>"

text \<open>
  \<open>send(method, params, timeoutMs)\<close>; \<open>id\<close> is what \<open>randomUUID()\<close> returns. Without a
  connection the promise returned is already rejected and nothing else happens
  (\<open>None\<close>); otherwise the id of the new pending promise is returned.
\<close>

definition send :: "string \<Rightarrow> string \<Rightarrow> js \<Rightarrow> int \<Rightarrow> client \<Rightarrow> string option \<times> client" where
  "send rid method params timeoutMs c =
     (if \<not> is_connected c then (None, c)
      else
        (Some rid,
         c\<lparr>timers := (timers c)(rid \<mapsto> (method, timeoutMs)),
           pendingRequests := Map_set (pendingRequests c) rid \<lparr>promise = rid, timeout = rid\<rparr>,
           written := written c @ [(rid, method, params)]\<rparr>))"

text \<open>
  The callback given to \<open>setTimeout\<close> in \<open>send\<close>, when the timer made for \<open>id\<close> fires.
  A timer that is not armed (cleared, or fired before) does not fire.
\<close>

definition timer_fired :: "string \<Rightarrow> client \<Rightarrow> client" where
  "timer_fired rid c =
     (case timers c rid of
        None \<Rightarrow> c
      | Some (method, timeoutMs) \<Rightarrow>
          (let c1 = clearTimeout rid c in
           if map_of (pendingRequests c1) rid = None then c1
           else settle rid (Rejected (RequestTimedOut method timeoutMs))
                  (c1\<lparr>pendingRequests := Map_delete (pendingRequests c1) rid\<rparr>)))"

text \<open>\<open>handleMessage(data)\<close>. An exception thrown in it is not caught there.\<close>

definition handleMessage :: "runtime \<Rightarrow> string \<Rightarrow> client \<Rightarrow> js_error + client" where
  "handleMessage J data c =
     (case JSON_parse J data of
        None \<Rightarrow> Inr (console_error ''[BRIDGE] Received malformed JSON, ignoring'' c)
      | Some parsed \<Rightarrow>
          (case get_prop parsed ''id'' of
             Inl e \<Rightarrow> Inl e
           | Inr rid \<Rightarrow>
               if rid = JUndefined \<or> rid = JNull then
                 Inr (console_error ''[BRIDGE] Received message without id, ignoring'' c)
               else
                 (case map_of (pendingRequests c) (String_of J rid) of
                    None \<Rightarrow>
                      Inr (console_error
                        (''[BRIDGE] Received response for unknown request id: '' @ String_of J rid) c)
                  | Some pending \<Rightarrow>
                      (let c1 = clearTimeout (timeout pending) c;
                           c2 = c1\<lparr>pendingRequests := Map_delete (pendingRequests c1) (String_of J rid)\<rparr>
                       in case get_prop parsed ''error'' of
                            Inl e \<Rightarrow> Inl e
                          | Inr err \<Rightarrow>
                              if truthy err then
                                (case get_prop err ''code'' of
                                   Inl e \<Rightarrow> Inl e
                                 | Inr code \<Rightarrow>
                                     (case get_prop err ''message'' of
                                        Inl e \<Rightarrow> Inl e
                                      | Inr message \<Rightarrow>
                                          Inr (settle (promise pending)
                                                 (Rejected (TestBridgeError code message)) c2)))
                              else
                                (case get_prop parsed ''result'' of
                                   Inl e \<Rightarrow> Inl e
                                 | Inr result \<Rightarrow>
                                     Inr (settle (promise pending) (Resolved result) c2))))))"

text \<open>\<open>rejectAllPending(error)\<close>: the loop over the entries of the map, then \<open>clear()\<close>.\<close>

definition rejectAllPending :: "client_error \<Rightarrow> client \<Rightarrow> client" where
  "rejectAllPending error c =
     (foldl (\<lambda>c' (rid, pending).
               settle (promise pending) (Rejected error) (clearTimeout (timeout pending) c'))
        c (pendingRequests c))\<lparr>pendingRequests := []\<rparr>"

text \<open>\<open>disconnect()\<close>.\<close>

definition disconnect :: "client \<Rightarrow> client" where
  "disconnect c = (rejectAllPending DisconnectedFromGame c)\<lparr>is_connected := False\<rparr>"

text \<open>What happens to a client, one event at a time.\<close>

datatype client_event =
    Send string string js int
  | Message string
  | TimerFired string
  | Disconnect

fun client_step :: "runtime \<Rightarrow> client_event \<Rightarrow> client \<Rightarrow> js_error + client" where
  "client_step J (Send rid method params timeoutMs) c = Inr (snd (send rid method params timeoutMs c))"
| "client_step J (Message data) c = handleMessage J data c"
| "client_step J (TimerFired rid) c = Inr (timer_fired rid c)"
| "client_step J Disconnect c = Inr (disconnect c)"

fun client_run :: "runtime \<Rightarrow> client_event list \<Rightarrow> client \<Rightarrow> js_error + client" where
  "client_run J [] c = Inr c"
| "client_run J (e # es) c =
     (case client_step J e c of Inl err \<Rightarrow> Inl err | Inr c' \<Rightarrow> client_run J es c')"

text \<open>The request ids that a list of events makes by \<open>send\<close>.\<close>

fun sent_ids :: "client_event list \<Rightarrow> string list" where
  "sent_ids [] = []"
| "sent_ids (Send rid method params timeoutMs # es) = rid # sent_ids es"
| "sent_ids (e # es) = sent_ids es"

section \<open>Notions used in the properties\<close>

text \<open>The current peer is there and open: the condition under which a response is sent.\<close>

definition peer_open :: "bridge \<Rightarrow> bool" where
  "peer_open b = (case ws_peer b of None \<Rightarrow> False | Some q \<Rightarrow> ready q = STATE_OPEN)"

text \<open>What \<open>_send_raw_response\<close> writes for a response: one text on the open peer, or nothing.\<close>

definition outgoing :: "response \<Rightarrow> bridge \<Rightarrow> effect list" where
  "outgoing r b =
     (case ws_peer b of
        None \<Rightarrow> []
      | Some q \<Rightarrow> if ready q = STATE_OPEN then [Sent (peer_id q) r] else [])"

text \<open>
  The state after \<open>_send_response\<close> or \<open>_send_error\<close> with response \<open>r\<close>: the response
  is written and its id is erased from \<open>_pending_responses\<close>.
\<close>

definition respond :: "engine \<Rightarrow> response \<Rightarrow> bridge \<Rightarrow> bridge" where
  "respond E r b =
     b\<lparr>effects := effects b @ outgoing r b,
       pending_responses := pending_responses b - {str E (response_id r)}\<rparr>"

text \<open>The effects that happened between state \<open>b\<close> and a later state \<open>b'\<close>.\<close>

definition new_effects :: "bridge \<Rightarrow> bridge \<Rightarrow> effect list" where
  "new_effects b b' = drop (length (effects b)) (effects b')"

text \<open>The responses among a list of effects, with the peer each was sent on.\<close>

fun responses_in :: "effect list \<Rightarrow> (nat \<times> response) list" where
  "responses_in [] = []"
| "responses_in (Sent p r # es) = (p, r) # responses_in es"
| "responses_in (e # es) = responses_in es"

text \<open>How often \<open>Expression.execute\<close> was called among a list of effects.\<close>

fun evaluations :: "effect list \<Rightarrow> nat" where
  "evaluations [] = 0"
| "evaluations (ExprExecute s n # es) = Suc (evaluations es)"
| "evaluations (e # es) = evaluations es"

subsection \<open>A small scene for the examples\<close>

definition example_main :: node where
  "example_main = Node ''Main'' ''Node2D'' ''/root/Main'' [''test_signal''] []"

definition example_manager :: node where
  "example_manager = Node ''GameManager'' ''Node'' ''/root/GameManager'' [] []"

definition example_root :: node where
  "example_root = Node ''root'' ''Window'' ''/root'' [] [example_main, example_manager]"

text \<open>
  An engine whose clock reads \<open>now\<close> throughout one activation, with the scene above,
  three expressions (\<open>true\<close>, \<open>false\<close>, and \<open>missing\<close>, whose execution fails) and three
  texts that parse.
\<close>

definition example_engine :: "int \<Rightarrow> engine" where
  \<open>example_engine now =
     \<lparr>parse_string = map_of
        [(''{"id":7}'', VDictionary [(VString ''id'', VFloat 7)]),
         (''{"id":7,"method":""}'',
            VDictionary [(VString ''id'', VFloat 7), (VString ''method'', VString [])]),
         (''[1]'', VArray [VFloat 1]),
         (''null'', VNil)],
      str = (\<lambda>v. case v of VString s \<Rightarrow> s | VFloat r \<Rightarrow> (if r = 7 then ''7.0'' else ''1.0'')
                   | _ \<Rightarrow> ''<null>''),
      to_int = (\<lambda>v. case v of VInt n \<Rightarrow> Some n | VFloat r \<Rightarrow> Some \<lfloor>r\<rfloor> | _ \<Rightarrow> None),
      booleanize = (\<lambda>v. v = VBool True),
      get_node_or_null = map_of
        [(''/root'', example_root), (''/root/Main'', example_main),
         (''/root/GameManager'', example_manager)],
      is_class = (\<lambda>n c. get_class n = c),
      match_pattern = (\<lambda>s p. s = p),
      is_in_group = (\<lambda>n g. False),
      expr_parse = (\<lambda>s. if s = ''('' then Some ''Expected expression'' else None),
      expr_execute = (\<lambda>s n. if s = ''true'' then Inr (VBool True)
                             else if s = ''missing'' then Inl ''Invalid named index''
                             else Inr (VBool False)),
      callv = (\<lambda>n m args. VNil),
      node_get = (\<lambda>n p. VNil),
      is_instance_valid = (\<lambda>n. True),
      get_ticks_msec = (\<lambda>k. now),
      to_float = (\<lambda>v. case v of VInt n \<Rightarrow> Some (of_int n) | VFloat r \<Rightarrow> Some r | _ \<Rightarrow> None),
      strip_edges = (\<lambda>s. s),
      to_upper = (\<lambda>s. s),
      key_constant = (\<lambda>s. 32)\<rparr>\<close>

text \<open>
  The example engine at time 0, resolving also the path \<open>/root/.\<close>: in a node path the
  component \<open>.\<close> is the node itself. Every node has the property \<open>name\<close>.
\<close>

definition example_engine_dot :: engine where
  "example_engine_dot =
     (example_engine 0)
       \<lparr>get_node_or_null := (get_node_or_null (example_engine 0))(''/root/.'' := Some example_root),
        node_get := (\<lambda>n p. if p = VString ''name'' then VString (get_name n) else VNil)\<rparr>"

text \<open>A bridge with one open peer, number 1, and nothing pending.\<close>

definition example_bridge :: bridge where
  "example_bridge =
     \<lparr>active = True, unsafe_mode = False, ws_peer = Some \<lparr>peer_id = 1, ready = STATE_OPEN\<rparr>,
      pending_responses = {}, effects = []\<rparr>"

text \<open>A connected client with nothing pending, and a runtime that parses two texts.\<close>

definition example_client :: client where
  "example_client =
     \<lparr>is_connected = True, pendingRequests = [], timers = Map.empty, settlements = [],
      console = [], written = []\<rparr>"

definition example_runtime :: runtime where
  \<open>example_runtime =
     \<lparr>JSON_parse = map_of
        [(''{"id":"abc","result":1}'',
            JObject [(''id'', JString ''abc''), (''result'', JNumber 1)]),
         (''null'', JNull)],
      to_string = (\<lambda>v. ''[object]'')\<rparr>\<close>

subsection \<open>The life of a suspended coroutine\<close>

text \<open>
  What can happen to a suspended coroutine: the signal it awaits fires and it is resumed
  (with the answers of the engine during that resumption), or, for a signal wait, the node
  emits the signal with some arguments.
\<close>

datatype event = Resumed engine | Emitted engine "variant list"

fun engine_of :: "event \<Rightarrow> engine" where
  "engine_of (Resumed E) = E"
| "engine_of (Emitted E args) = E"

fun step :: "event \<Rightarrow> coroutine \<Rightarrow> bridge \<Rightarrow> activation" where
  "step (Resumed E) c b = resume E c b"
| "step (Emitted E args) c b = Inr (Some (signal_emitted E args c), b)"

text \<open>
  A run: the events happen one after the other, as long as the coroutine is suspended.
  Once it has returned there is nothing left to resume.
\<close>

fun run :: "event list \<Rightarrow> coroutine option \<Rightarrow> bridge \<Rightarrow> activation" where
  "run [] co b = Inr (co, b)"
| "run (e # es) None b = Inr (None, b)"
| "run (e # es) (Some c) b =
     (case step e c b of Inl err \<Rightarrow> Inl err | Inr (co, b') \<Rightarrow> run es co b')"

text \<open>
  Between \<open>b\<close> and \<open>b'\<close> the script ran on without answering: effects were added, none of
  them a response, and the peer is the same.
\<close>

definition quiet :: "bridge \<Rightarrow> bridge \<Rightarrow> bool" where
  "quiet b b' =
     (\<exists>xs. effects b' = effects b @ xs \<and> responses_in xs = [] \<and> ws_peer b' = ws_peer b)"

text \<open>
  Between \<open>b\<close> and \<open>b'\<close> the request \<open>i\<close> was answered once: the script ran on without
  answering and then, as the last thing, handed exactly one response with id \<open>i\<close> to
  \<open>_send_raw_response\<close> (which writes it on the peer if that is open, and drops it
  otherwise); the peer is the same.
\<close>

definition answered :: "variant \<Rightarrow> bridge \<Rightarrow> bridge \<Rightarrow> bool" where
  "answered i b b' =
     (\<exists>xs r. effects b' = effects b @ xs @ outgoing r b \<and> responses_in xs = []
        \<and> response_id r = i \<and> ws_peer b' = ws_peer b)"

text \<open>The three kinds of response of a condition poll that the specification names.\<close>

definition is_timeout_response :: "response \<Rightarrow> bool" where
  "is_timeout_response r =
     (\<exists>i last_value elapsed. r = Result i
        (dict_of [(''satisfied'', VBool False), (''timeout'', VBool True),
                  (''last_value'', last_value), (''elapsed_ms'', VInt elapsed)]))"

definition is_satisfied_response :: "response \<Rightarrow> bool" where
  "is_satisfied_response r =
     (\<exists>i v elapsed. r = Result i
        (dict_of [(''satisfied'', VBool True), (''value'', v), (''elapsed_ms'', VInt elapsed)]))"

definition is_node_freed_response :: "response \<Rightarrow> bool" where
  "is_node_freed_response r =
     (\<exists>i. r = Error i (error_dict (- 32603) ''Base node was freed (scene changed during wait)''))"

text \<open>The example bridge in unsafe mode.\<close>

definition unsafe_bridge :: bridge where
  "unsafe_bridge = example_bridge\<lparr>unsafe_mode := True\<rparr>"

text \<open>
  What one activation for request \<open>i\<close> (a handler call or a resumption) has done when it
  ends: if it returned, the request was answered once and its id is not pending; if it
  is suspended, it ran quietly and the coroutine left is the one of request \<open>i\<close>.
\<close>

definition activation_ok :: "engine \<Rightarrow> variant \<Rightarrow> bridge \<Rightarrow> coroutine option \<times> bridge \<Rightarrow> bool" where
  "activation_ok E i b res =
     (case res of
        (None, b') \<Rightarrow> answered i b b' \<and> str E i \<notin> pending_responses b'
      | (Some c, b') \<Rightarrow> quiet b b' \<and> coroutine_id c = i)"

text \<open>The response of a signal wait that tells the signal was received.\<close>

definition is_received_response :: "response \<Rightarrow> bool" where
  "is_received_response r =
     (\<exists>i args elapsed. r = Result i
        (dict_of [(''received'', VBool True), (''args'', VArray args),
                  (''elapsed_ms'', VInt elapsed)]))"

section \<open>Basic facts\<close>

lemma and_then_simps [simp]:
  "and_then (Inl e) f = Inl e" "and_then (Inr x) f = f x"
  by (simp_all add: and_then_def)

lemma abort_in_simps [simp]:
  "abort_in b (Inl e) = Inl (e, b)" "abort_in b (Inr x) = Inr x"
  by (simp_all add: abort_in_def)

lemma send_raw_response_eq:
  "send_raw_response i r e b =
     Inr (b\<lparr>effects := effects b @ outgoing (if is_null e then Result i r else Error i e) b\<rparr>)"
  by (simp add: send_raw_response_def outgoing_def and_then_def get_ready_state_def send_text_def
      do_effect_def split: option.splits)

lemma error_dict_not_null [simp]: "\<not> is_null (error_dict c m)"
  by (simp add: is_null_def error_dict_def dict_of_def)

lemma send_response_eq [simp]: "send_response E i r b = Inr (respond E (Result i r) b)"
  by (simp add: send_response_def send_raw_response_eq respond_def erase_pending_def is_null_def)

lemma send_error_eq [simp]:
  "send_error E i c m b = Inr (respond E (Error i (error_dict c m)) b)"
  by (simp add: send_error_def send_raw_response_eq respond_def erase_pending_def)

lemma respond_fields [simp]:
  "effects (respond E r b) = effects b @ outgoing r b"
  "ws_peer (respond E r b) = ws_peer b"
  "unsafe_mode (respond E r b) = unsafe_mode b"
  "active (respond E r b) = active b"
  "pending_responses (respond E r b) = pending_responses b - {str E (response_id r)}"
  by (simp_all add: respond_def)

lemma do_effect_fields [simp]:
  "effects (do_effect e b) = effects b @ [e]"
  "ws_peer (do_effect e b) = ws_peer b"
  "unsafe_mode (do_effect e b) = unsafe_mode b"
  "active (do_effect e b) = active b"
  "pending_responses (do_effect e b) = pending_responses b"
  by (simp_all add: do_effect_def)

lemma mark_pending_fields [simp]:
  "effects (mark_pending E i b) = effects b"
  "ws_peer (mark_pending E i b) = ws_peer b"
  "unsafe_mode (mark_pending E i b) = unsafe_mode b"
  "active (mark_pending E i b) = active b"
  "pending_responses (mark_pending E i b) = insert (str E i) (pending_responses b)"
  by (simp_all add: mark_pending_def)

lemma outgoing_same_peer [simp]:
  "outgoing r (do_effect e b) = outgoing r b"
  "outgoing r (mark_pending E i b) = outgoing r b"
  "outgoing r (respond E r' b) = outgoing r b"
  by (simp_all add: outgoing_def)

lemma outgoing_cases: "outgoing r b = (if peer_open b then [Sent (peer_id (the (ws_peer b))) r] else [])"
  by (simp add: outgoing_def peer_open_def split: option.splits)

lemma new_effects_append [simp]: "effects b' = effects b @ xs \<Longrightarrow> new_effects b b' = xs"
  by (simp add: new_effects_def)

lemma new_effects_self [simp]: "new_effects b b = []"
  by (simp add: new_effects_def)

section \<open>The search of the scene tree is capped\<close>

lemma foldl_bounded:
  assumes "\<And>c res. c \<in> set cs \<Longrightarrow> length res \<le> M \<Longrightarrow> length (f res c) \<le> M"
    and "length res \<le> M"
  shows "length (foldl f res cs) \<le> M"
  using assms by (induction cs arbitrary: res) auto

lemma find_nodes_recursive_bounded:
  "length results \<le> MAX_FIND_RESULTS \<Longrightarrow>
   length (find_nodes_recursive E n t np g results) \<le> MAX_FIND_RESULTS"
proof (induction E n t np g results rule: find_nodes_recursive.induct)
  case (1 E nm cl pa sg cs t np g results)
  show ?case
  proof (cases "length results \<ge> MAX_FIND_RESULTS")
    case True
    then show ?thesis using "1.prems" by simp
  next
    case False
    let ?start = "if node_matches E (Node nm cl pa sg cs) t np g
                  then results @ [node_entry (Node nm cl pa sg cs)] else results"
    have start: "length ?start \<le> MAX_FIND_RESULTS" using False by simp
    have "length (foldl (\<lambda>res child. find_nodes_recursive E child t np g res) ?start cs)
            \<le> MAX_FIND_RESULTS"
      by (rule foldl_bounded[OF _ start]) (use "1.IH" False in auto)
    then show ?thesis using False by simp
  qed
qed

text \<open>
  C9. Whatever the filters and the scene tree, an array that \<open>find_nodes\<close> returns in
  its response has at most 1000 entries.
\<close>

theorem find_nodes_at_most_1000:
  assumes "handle_find_nodes E i params b = Inr b'"
    and "Sent p (Result j (VArray rs)) \<in> set (new_effects b b')"
  shows "length rs \<le> 1000"
proof -
  have bound: "\<And>n t np g. length (find_nodes_recursive E n t np g []) \<le> 1000"
    using find_nodes_recursive_bounded[of "[]"] by (simp add: MAX_FIND_RESULTS_def)
  from assms show ?thesis
    by (auto simp: handle_find_nodes_def lookup_node_def outgoing_def and_then_def bound
        split: sum.splits option.splits if_splits)
qed

theorem find_nodes_at_most_1000_witness:
  "handle_find_nodes (example_engine 0) (VFloat 1) [] example_bridge =
     Inr (example_bridge\<lparr>effects :=
        [NodeLookup ''/root'',
         Sent 1 (Result (VFloat 1) (VArray [node_entry example_root, node_entry example_main,
           node_entry example_manager]))]\<rparr>)
   \<and> length [node_entry example_root, node_entry example_main, node_entry example_manager] \<le> 1000"
proof -
  let ?rs = "[node_entry example_root, node_entry example_main, node_entry example_manager]"
  let ?b' = "example_bridge\<lparr>effects :=
        [NodeLookup ''/root'', Sent 1 (Result (VFloat 1) (VArray ?rs))]\<rparr>"
  have run: "handle_find_nodes (example_engine 0) (VFloat 1) [] example_bridge = Inr ?b'"
    by (simp add: handle_find_nodes_def get_String_def dict_get_def as_String_def lookup_node_def
        example_engine_def example_bridge_def example_root_def example_main_def
        example_manager_def respond_def outgoing_def do_effect_def node_matches_def
        MAX_FIND_RESULTS_def)
  have sent: "Sent 1 (Result (VFloat 1) (VArray ?rs)) \<in> set (new_effects example_bridge ?b')"
    by (simp add: new_effects_def example_bridge_def)
  from find_nodes_at_most_1000[OF run sent] run show ?thesis by simp
qed

section \<open>Singletons are looked up by simple name\<close>

lemma read_properties_fields:
  assumes "read_properties E n ps result b = Inr (result', b2)"
  shows "effects b2 = effects b @ map (NodeGet (get_path n)) ps"
    and "ws_peer b2 = ws_peer b"
  using assms
  by (induction ps arbitrary: result b)
     (auto simp: as_String_def split: variant.splits)

lemma contains_nonempty: "contains s sub \<Longrightarrow> sub \<noteq> [] \<Longrightarrow> s \<noteq> []"
  by (cases s) auto

text \<open>
  Nothing but \<open>get_node_or_null\<close> itself depends on how the engine resolves paths.
\<close>

lemma variant_to_json_lookup [simp]:
  "variant_to_json (E\<lparr>get_node_or_null := g\<rparr>) v = variant_to_json E v"
proof (induction E v rule: variant_to_json.induct)
  case (16 E kvs)
  have "map (\<lambda>(k, v). (k, variant_to_json (E\<lparr>get_node_or_null := g\<rparr>) v)) kvs
          = map (\<lambda>(k, v). (k, variant_to_json E v)) kvs"
    by (rule map_cong[OF refl]) (use 16 in auto)
  then show ?case by (simp del: map_eq_conv)
qed simp_all

lemma respond_lookup [simp]:
  "respond (E\<lparr>get_node_or_null := g\<rparr>) r b = respond E r b"
  by (simp add: respond_def)

lemma read_properties_lookup [simp]:
  "read_properties (E\<lparr>get_node_or_null := g\<rparr>) n ps result b = read_properties E n ps result b"
  by (induction ps arbitrary: result b) (simp_all add: as_String_def split: variant.splits)

text \<open>
  C10, as the code has it. A \<open>get_singleton\<close> request whose \<open>singleton_name\<close> contains
  \<open>..\<close> or \<open>/\<close> is answered with error -32602 and no node is looked up. Consequently
  every path that \<open>get_singleton\<close> looks up, whatever the request, is \<open>/root/\<close> followed
  by one non-empty name without \<open>/\<close> and without \<open>..\<close>, a single path component below
  the root; and the outcome of the handler, also when it raises, depends on the scene
  tree through such paths only. Which node the engine finds for the component is not
  settled by the check: the name \<open>.\<close> passes it.
\<close>

theorem get_singleton_rejects_paths:
  assumes "dict_get params (VString ''singleton_name'') (VString []) = VString name"
    and "contains name ''..'' \<or> contains name ''/''"
  shows "handle_get_singleton E i params b =
           Inr (respond E (Error i (error_dict (- 32602)
             ''Invalid singleton name: must be a simple name, not a path'')) b)
     \<and> (\<forall>p. NodeLookup p \<notin> set (new_effects b (respond E (Error i (error_dict (- 32602)
             ''Invalid singleton name: must be a simple name, not a path'')) b)))
     \<and> (\<forall>params' b'. handle_get_singleton E i params' b = Inr b' \<longrightarrow>
          (\<forall>p. NodeLookup p \<in> set (new_effects b b') \<longrightarrow>
             (\<exists>n. p = ''/root/'' @ n \<and> n \<noteq> [] \<and> \<not> contains n ''..'' \<and> \<not> contains n ''/'')))
     \<and> (\<forall>params' g.
          (\<forall>n. n \<noteq> [] \<and> \<not> contains n ''..'' \<and> \<not> contains n ''/'' \<longrightarrow>
             g (''/root/'' @ n) = get_node_or_null E (''/root/'' @ n)) \<longrightarrow>
          handle_get_singleton (E\<lparr>get_node_or_null := g\<rparr>) i params' b
            = handle_get_singleton E i params' b)"
proof (intro conjI allI impI)
  have "name \<noteq> []" using assms(2) contains_nonempty by auto
  then show "handle_get_singleton E i params b =
           Inr (respond E (Error i (error_dict (- 32602)
             ''Invalid singleton name: must be a simple name, not a path'')) b)"
    using assms by (simp add: handle_get_singleton_def get_String_def as_String_def)
next
  fix p
  show "NodeLookup p \<notin> set (new_effects b (respond E (Error i (error_dict (- 32602)
             ''Invalid singleton name: must be a simple name, not a path'')) b))"
    by (auto simp: outgoing_def split: option.splits)
next
  fix params' b' p
  assume run: "handle_get_singleton E i params' b = Inr b'"
    and look: "NodeLookup p \<in> set (new_effects b b')"
  show "\<exists>n. p = ''/root/'' @ n \<and> n \<noteq> [] \<and> \<not> contains n ''..'' \<and> \<not> contains n ''/''"
  proof (cases "get_String params' ''singleton_name'' []")
    case (Inl e)
    then show ?thesis using run by (simp add: handle_get_singleton_def)
  next
    case (Inr nm)
    show ?thesis
    proof (cases "nm = [] \<or> contains nm ''..'' \<or> contains nm ''/''")
      case True
      then have "\<exists>r. b' = respond E r b"
        using run Inr by (auto simp: handle_get_singleton_def split: if_splits)
      then show ?thesis using look by (auto simp: outgoing_def split: option.splits if_splits)
    next
      case False
      let ?path = "''/root/'' @ nm"
      have "set (new_effects b b') \<subseteq>
              {NodeLookup ?path} \<union> range (\<lambda>(x, y). NodeGet x y) \<union> range (\<lambda>(x, y). Sent x y)"
      proof (cases "get_node_or_null E ?path")
        case None
        then have "b' = respond E (Error i (error_dict (- 32602) (''Singleton not found: '' @ nm)))
                     (do_effect (NodeLookup ?path) b)"
          using run Inr False by (simp add: handle_get_singleton_def lookup_node_def)
        then show ?thesis by (auto simp: outgoing_def split: option.splits if_splits)
      next
        case (Some n)
        then obtain props where props:
          "as_Array (dict_get params' (VString ''properties'') (VArray [])) = Inr props"
          using run Inr False
          by (cases "as_Array (dict_get params' (VString ''properties'') (VArray []))")
             (simp_all add: handle_get_singleton_def lookup_node_def)
        obtain result b2 where rp:
          "read_properties E n props [] (do_effect (NodeLookup ?path) b) = Inr (result, b2)"
          using run Inr False Some props
          by (cases "read_properties E n props [] (do_effect (NodeLookup ?path) b)")
             (auto simp: handle_get_singleton_def lookup_node_def)
        then have b': "b' = respond E (Result i (VDictionary result)) b2"
          using run Inr False Some props
          by (simp add: handle_get_singleton_def lookup_node_def)
        have "effects b2 = effects b @ NodeLookup ?path # map (NodeGet (get_path n)) props"
          using read_properties_fields(1)[OF rp] by simp
        then show ?thesis using b' by (auto simp: outgoing_def split: option.splits if_splits)
      qed
      then show ?thesis using look False by auto
    qed
  qed
next
  fix params' g
  assume same: "\<forall>n. n \<noteq> [] \<and> \<not> contains n ''..'' \<and> \<not> contains n ''/'' \<longrightarrow>
             g (''/root/'' @ n) = get_node_or_null E (''/root/'' @ n)"
  show "handle_get_singleton (E\<lparr>get_node_or_null := g\<rparr>) i params' b
          = handle_get_singleton E i params' b"
  proof (cases "get_String params' ''singleton_name'' []")
    case (Inl e)
    then show ?thesis by (simp add: handle_get_singleton_def)
  next
    case (Inr nm)
    show ?thesis
    proof (cases "nm = [] \<or> contains nm ''..'' \<or> contains nm ''/''")
      case True
      then show ?thesis using Inr by (auto simp: handle_get_singleton_def)
    next
      case False
      then have "g (''/root/'' @ nm) = get_node_or_null E (''/root/'' @ nm)"
        using same by blast
      then show ?thesis using Inr False
        by (simp add: handle_get_singleton_def lookup_node_def split_def split: option.splits)
    qed
  qed
qed

theorem get_singleton_rejects_paths_witness:
  "dict_get [(VString ''singleton_name'', VString ''../Main'')] (VString ''singleton_name'')
       (VString []) = VString ''../Main''
   \<and> (contains ''../Main'' ''..'' \<or> contains ''../Main'' ''/'')
   \<and> handle_get_singleton (example_engine 0) (VFloat 1)
        [(VString ''singleton_name'', VString ''../Main'')] example_bridge =
       Inr (example_bridge\<lparr>effects := [Sent 1 (Error (VFloat 1) (error_dict (- 32602)
             ''Invalid singleton name: must be a simple name, not a path''))]\<rparr>)
   \<and> handle_get_singleton (example_engine 0) (VFloat 1)
        [(VString ''singleton_name'', VString ''GameManager'')] example_bridge =
       Inr (example_bridge\<lparr>effects := [NodeLookup ''/root/GameManager'',
             Sent 1 (Result (VFloat 1) (VDictionary []))]\<rparr>)
   \<and> (\<exists>n. ''/root/GameManager'' = ''/root/'' @ n \<and> n \<noteq> [] \<and> \<not> contains n ''..''
          \<and> \<not> contains n ''/'')
   \<and> handle_get_singleton
        ((example_engine 0)\<lparr>get_node_or_null :=
           (get_node_or_null (example_engine 0))(''/root/Main/Child'' := Some example_manager)\<rparr>)
        (VFloat 1) [(VString ''singleton_name'', VString ''GameManager''),
          (VString ''properties'', VFloat 2)] example_bridge
     = handle_get_singleton (example_engine 0) (VFloat 1)
         [(VString ''singleton_name'', VString ''GameManager''),
          (VString ''properties'', VFloat 2)] example_bridge"
proof -
  let ?params = "[(VString ''singleton_name'', VString ''../Main'')]"
  let ?ok = "[(VString ''singleton_name'', VString ''GameManager'')]"
  let ?b' = "example_bridge\<lparr>effects := [NodeLookup ''/root/GameManager'',
             Sent 1 (Result (VFloat 1) (VDictionary []))]\<rparr>"
  let ?g = "(get_node_or_null (example_engine 0))(''/root/Main/Child'' := Some example_manager)"
  have h1: "dict_get ?params (VString ''singleton_name'') (VString []) = VString ''../Main''"
    by (simp add: dict_get_def)
  have h2: "contains ''../Main'' ''..'' \<or> contains ''../Main'' ''/''" by simp
  have ok: "handle_get_singleton (example_engine 0) (VFloat 1) ?ok example_bridge = Inr ?b'"
    by (simp add: handle_get_singleton_def get_String_def dict_get_def as_String_def as_Array_def
        lookup_node_def example_engine_def example_bridge_def respond_def
        outgoing_def do_effect_def)
  have look: "NodeLookup ''/root/GameManager'' \<in> set (new_effects example_bridge ?b')"
    by (simp add: new_effects_def example_bridge_def)
  have same: "\<forall>n. n \<noteq> [] \<and> \<not> contains n ''..'' \<and> \<not> contains n ''/'' \<longrightarrow>
      ?g (''/root/'' @ n) = get_node_or_null (example_engine 0) (''/root/'' @ n)"
  proof (intro allI impI)
    fix n :: string
    assume n: "n \<noteq> [] \<and> \<not> contains n ''..'' \<and> \<not> contains n ''/''"
    have "contains ''Main/Child'' ''/''" by simp
    with n have "n \<noteq> ''Main/Child''" by blast
    then show "?g (''/root/'' @ n) = get_node_or_null (example_engine 0) (''/root/'' @ n)"
      by simp
  qed
  note fact1 = get_singleton_rejects_paths[OF h1 h2, of "example_engine 0" "VFloat 1" example_bridge]
  have rej: "handle_get_singleton (example_engine 0) (VFloat 1) ?params example_bridge =
       Inr (example_bridge\<lparr>effects := [Sent 1 (Error (VFloat 1) (error_dict (- 32602)
             ''Invalid singleton name: must be a simple name, not a path''))]\<rparr>)"
    using fact1 by (simp add: respond_def outgoing_def example_bridge_def example_engine_def)
  from fact1 ok look have ex: "\<exists>n. ''/root/GameManager'' = ''/root/'' @ n \<and> n \<noteq> []
          \<and> \<not> contains n ''..'' \<and> \<not> contains n ''/''" by blast
  from fact1 same have eq: "handle_get_singleton ((example_engine 0)\<lparr>get_node_or_null := ?g\<rparr>)
        (VFloat 1) [(VString ''singleton_name'', VString ''GameManager''),
          (VString ''properties'', VFloat 2)] example_bridge
     = handle_get_singleton (example_engine 0) (VFloat 1)
         [(VString ''singleton_name'', VString ''GameManager''),
          (VString ''properties'', VFloat 2)] example_bridge"
    by blast
  from h1 h2 rej ok ex eq show ?thesis by blast
qed

text \<open>
  The name \<open>.\<close> contains neither \<open>..\<close> nor \<open>/\<close>, so it passes the check, and the path
  looked up is \<open>/root/.\<close>: the root itself, which is not one of its children. The
  response has a property of the root.
\<close>

theorem get_singleton_dot_counterexample:
  "\<not> contains ''.'' ''..'' \<and> \<not> contains ''.'' ''/''
   \<and> handle_get_singleton example_engine_dot (VFloat 1)
        [(VString ''singleton_name'', VString ''.''),
         (VString ''properties'', VArray [VString ''name''])] example_bridge =
       Inr (example_bridge\<lparr>effects := [NodeLookup ''/root/.'',
             NodeGet ''/root'' (VString ''name''),
             Sent 1 (Result (VFloat 1) (VDictionary [(VString ''name'', VString ''root'')]))]\<rparr>)
   \<and> get_node_or_null example_engine_dot ''/root/.'' = Some example_root
   \<and> example_root \<notin> set (get_children example_root)"
  by (simp add: handle_get_singleton_def get_String_def dict_get_def as_String_def as_Array_def
      lookup_node_def example_engine_dot_def example_engine_def example_bridge_def respond_def
      outgoing_def do_effect_def example_root_def example_main_def example_manager_def)

text \<open>
  A property name that is not a string, after the lookup: the handler raises and nothing
  is sent.
\<close>

lemma get_singleton_property_name_not_a_string:
  "handle_get_singleton (example_engine 0) (VFloat 1)
     [(VString ''singleton_name'', VString ''GameManager''),
      (VString ''properties'', VArray [VFloat 2])] example_bridge = Inl TypeMismatch"
  by (simp add: handle_get_singleton_def get_String_def dict_get_def as_String_def as_Array_def
      lookup_node_def example_engine_def)

section \<open>Malformed packets\<close>

lemma is_null_simps [simp]:
  "is_null VNil" "is_null (VObject None)" "\<not> is_null (VDictionary d)" "\<not> is_null (VArray xs)"
  "\<not> is_null (VString s)" "\<not> is_null (VFloat r)" "\<not> is_null (VBool t)" "\<not> is_null (VInt n)"
  by (simp_all add: is_null_def)

text \<open>
  C5, as the code has it. A packet that is not parseable JSON, or parses to null, is
  answered with error -32700 and id null; so is one that parses to a value that is not an
  object. An object whose \<open>method\<close> is absent or the empty string is answered with error
  -32600, and the id of that response is the \<open>id\<close> field of the request (null only when
  the request has none). In each case the state afterwards does not depend on
  \<open>dispatch\<close>: no handler runs, and nothing but the response is written.
\<close>

theorem malformed_packet_rejected:
  "(parse_string E text = None \<or> (\<exists>v. parse_string E text = Some v \<and> is_null v) \<longrightarrow>
      handle_packet E dispatch text b =
        Inr (b\<lparr>effects := effects b @
          outgoing (Error VNil (error_dict (- 32700) ''Parse error: invalid JSON'')) b\<rparr>))
   \<and> ((\<exists>v. parse_string E text = Some v \<and> \<not> is_null v \<and> (\<forall>d. v \<noteq> VDictionary d)) \<longrightarrow>
      handle_packet E dispatch text b =
        Inr (b\<lparr>effects := effects b @
          outgoing (Error VNil (error_dict (- 32700) ''Parse error: expected JSON object'')) b\<rparr>))
   \<and> (\<forall>d. parse_string E text = Some (VDictionary d)
          \<and> (\<not> dict_has d (VString ''method'')
               \<or> dict_get d (VString ''method'') VNil = VString []) \<longrightarrow>
      handle_packet E dispatch text b =
        Inr (b\<lparr>effects := effects b @
          outgoing (Error (dict_get d (VString ''id'') VNil)
            (error_dict (- 32600) ''Invalid request: missing method'')) b\<rparr>))"
proof (intro conjI allI impI)
  assume "parse_string E text = None \<or> (\<exists>v. parse_string E text = Some v \<and> is_null v)"
  then show "handle_packet E dispatch text b =
        Inr (b\<lparr>effects := effects b @
          outgoing (Error VNil (error_dict (- 32700) ''Parse error: invalid JSON'')) b\<rparr>)"
    by (auto simp: handle_packet_def send_raw_response_eq)
next
  assume "\<exists>v. parse_string E text = Some v \<and> \<not> is_null v \<and> (\<forall>d. v \<noteq> VDictionary d)"
  then obtain v where v: "parse_string E text = Some v" "\<not> is_null v" "\<forall>d. v \<noteq> VDictionary d"
    by blast
  then show "handle_packet E dispatch text b =
        Inr (b\<lparr>effects := effects b @
          outgoing (Error VNil (error_dict (- 32700) ''Parse error: expected JSON object'')) b\<rparr>)"
    by (cases v) (simp_all add: handle_packet_def send_raw_response_eq)
next
  fix d
  assume a: "parse_string E text = Some (VDictionary d)
          \<and> (\<not> dict_has d (VString ''method'')
               \<or> dict_get d (VString ''method'') VNil = VString [])"
  then have "dict_get d (VString ''method'') (VString []) = VString []"
    by (auto simp: dict_has_def dict_get_def split: option.splits)
  with a show "handle_packet E dispatch text b =
        Inr (b\<lparr>effects := effects b @
          outgoing (Error (dict_get d (VString ''id'') VNil)
            (error_dict (- 32600) ''Invalid request: missing method'')) b\<rparr>)"
    by (simp add: handle_packet_def send_raw_response_eq as_String_def Let_def)
qed

theorem malformed_packet_rejected_witness:
  \<open>handle_packet (example_engine 0) (\<lambda>i m p b. Inl (NullInstance, b)) ''not json'' example_bridge =
     Inr (example_bridge\<lparr>effects :=
       [Sent 1 (Error VNil (error_dict (- 32700) ''Parse error: invalid JSON''))]\<rparr>)
   \<and> handle_packet (example_engine 0) (\<lambda>i m p b. Inl (NullInstance, b)) ''[1]'' example_bridge =
     Inr (example_bridge\<lparr>effects :=
       [Sent 1 (Error VNil (error_dict (- 32700) ''Parse error: expected JSON object''))]\<rparr>)
   \<and> handle_packet (example_engine 0) (\<lambda>i m p b. Inl (NullInstance, b)) ''{"id":7}'' example_bridge =
     Inr (example_bridge\<lparr>effects :=
       [Sent 1 (Error (VFloat 7) (error_dict (- 32600) ''Invalid request: missing method''))]\<rparr>)\<close>
proof -
  let ?E = "example_engine 0"
  let ?d = "\<lambda>(i::variant) (m::string) (p::dict) (b::bridge). (Inl (NullInstance, b) :: (script_error \<times> bridge) + bridge)"
  have p1: "parse_string ?E ''not json'' = None \<or>
            (\<exists>v. parse_string ?E ''not json'' = Some v \<and> is_null v)"
    by (simp add: example_engine_def)
  have p2: "\<exists>v. parse_string ?E ''[1]'' = Some v \<and> \<not> is_null v \<and> (\<forall>d. v \<noteq> VDictionary d)"
    by (simp add: example_engine_def)
  have p3: \<open>parse_string ?E ''{"id":7}'' = Some (VDictionary [(VString ''id'', VFloat 7)])
          \<and> (\<not> dict_has [(VString ''id'', VFloat 7)] (VString ''method'')
               \<or> dict_get [(VString ''id'', VFloat 7)] (VString ''method'') VNil = VString [])\<close>
    by (simp add: example_engine_def dict_has_def)
  have out: "\<And>r. example_bridge\<lparr>effects := effects example_bridge @ outgoing r example_bridge\<rparr>
              = example_bridge\<lparr>effects := [Sent 1 r]\<rparr>"
    by (simp add: example_bridge_def outgoing_def)
  from malformed_packet_rejected[of ?E "''not json''" ?d example_bridge] p1
  have r1: "handle_packet ?E ?d ''not json'' example_bridge =
     Inr (example_bridge\<lparr>effects :=
       [Sent 1 (Error VNil (error_dict (- 32700) ''Parse error: invalid JSON''))]\<rparr>)"
    by (simp only: out)
  from malformed_packet_rejected[of ?E "''[1]''" ?d example_bridge] p2
  have r2: "handle_packet ?E ?d ''[1]'' example_bridge =
     Inr (example_bridge\<lparr>effects :=
       [Sent 1 (Error VNil (error_dict (- 32700) ''Parse error: expected JSON object''))]\<rparr>)"
    by (simp only: out)
  from malformed_packet_rejected[of ?E \<open>''{"id":7}''\<close> ?d example_bridge] p3
  have r3: \<open>handle_packet ?E ?d ''{"id":7}'' example_bridge =
     Inr (example_bridge\<lparr>effects :=
       [Sent 1 (Error (VFloat 7) (error_dict (- 32600) ''Invalid request: missing method''))]\<rparr>)\<close>
    by (simp add: out dict_get_def)
  from r1 r2 r3 show ?thesis by simp
qed

text \<open>
  The request \<open>{"id":7,"method":""}\<close> has an empty \<open>method\<close>; the error response carries
  the id 7, not null.
\<close>

theorem malformed_packet_id_counterexample:
  \<open>handle_packet (example_engine 0) (\<lambda>i m p b. Inr b) ''{"id":7,"method":""}'' example_bridge =
     Inr (example_bridge\<lparr>effects :=
       [Sent 1 (Error (VFloat 7) (error_dict (- 32600) ''Invalid request: missing method''))]\<rparr>)
   \<and> response_id (Error (VFloat 7) (error_dict (- 32600) ''Invalid request: missing method''))
       \<noteq> VNil\<close>
  by (simp add: handle_packet_def example_engine_def example_bridge_def send_raw_response_eq
      outgoing_def dict_get_def as_String_def Let_def)

section \<open>The unsafe-mode gate\<close>

text \<open>
  C6, as the code has it. Without unsafe mode, \<open>evaluate_expression\<close> and
  \<open>wait_for_condition\<close> are answered with error -32001 whatever their parameters, and so
  is \<open>call_method\<close> naming a blocked method when its \<open>node_path\<close> is a non-empty string
  (the check of \<open>node_path\<close> comes first). In each case the response is all that
  happens: no node is looked up, nothing is parsed, executed or called, nothing is left
  pending.
\<close>

theorem unsafe_gate:
  assumes "\<not> unsafe_mode b"
  shows "handle_evaluate_expression E i params b =
           Inr (respond E (Error i (error_dict (- 32001)
             ''evaluate_expression requires --unsafe flag on TestBridge'')) b)
     \<and> handle_wait_for_condition E i params b =
           Inr (None, respond E (Error i (error_dict (- 32001)
             ''wait_for_condition uses expression evaluation and requires --unsafe flag'')) b)
     \<and> (\<forall>node_path method_name.
           get_String params ''node_path'' [] = Inr node_path \<and> node_path \<noteq> []
           \<and> get_String params ''method_name'' [] = Inr method_name
           \<and> method_name \<in> set BLOCKED_METHODS \<longrightarrow>
           handle_call_method E i params b =
             Inr (respond E (Error i (error_dict (- 32001)
               (''Method '' @ [CHR 0x27] @ method_name @ [CHR 0x27]
                  @ '' is blocked without --unsafe flag''))) b))
     \<and> (\<forall>r. new_effects b (respond E r b) = outgoing r b)"
proof (intro conjI allI impI)
  show "handle_evaluate_expression E i params b =
           Inr (respond E (Error i (error_dict (- 32001)
             ''evaluate_expression requires --unsafe flag on TestBridge'')) b)"
    using assms by (simp add: handle_evaluate_expression_def)
  show "handle_wait_for_condition E i params b =
           Inr (None, respond E (Error i (error_dict (- 32001)
             ''wait_for_condition uses expression evaluation and requires --unsafe flag'')) b)"
    using assms by (simp add: handle_wait_for_condition_def returned_def)
next
  fix node_path method_name
  assume "get_String params ''node_path'' [] = Inr node_path \<and> node_path \<noteq> []
           \<and> get_String params ''method_name'' [] = Inr method_name
           \<and> method_name \<in> set BLOCKED_METHODS"
  moreover from this have "method_name \<noteq> []" by (auto simp: BLOCKED_METHODS_def)
  ultimately show "handle_call_method E i params b =
             Inr (respond E (Error i (error_dict (- 32001)
               (''Method '' @ [CHR 0x27] @ method_name @ [CHR 0x27]
                  @ '' is blocked without --unsafe flag''))) b)"
    using assms by (simp add: handle_call_method_def)
next
  fix r show "new_effects b (respond E r b) = outgoing r b" by simp
qed

theorem unsafe_gate_witness:
  "\<not> unsafe_mode example_bridge
   \<and> handle_evaluate_expression (example_engine 0) (VFloat 1)
       [(VString ''expression'', VString ''true'')] example_bridge =
       Inr (example_bridge\<lparr>effects := [Sent 1 (Error (VFloat 1) (error_dict (- 32001)
         ''evaluate_expression requires --unsafe flag on TestBridge''))]\<rparr>)
   \<and> handle_call_method (example_engine 0) (VFloat 1)
       [(VString ''node_path'', VString ''/root/Main''),
        (VString ''method_name'', VString ''queue_free'')] example_bridge =
       Inr (example_bridge\<lparr>effects := [Sent 1 (Error (VFloat 1) (error_dict (- 32001)
         (''Method '' @ [CHR 0x27] @ ''queue_free'' @ [CHR 0x27]
            @ '' is blocked without --unsafe flag'')))]\<rparr>)"
proof -
  let ?E = "example_engine 0"
  let ?p = "[(VString ''node_path'', VString ''/root/Main''),
             (VString ''method_name'', VString ''queue_free'')]"
  have h: "\<not> unsafe_mode example_bridge" by (simp add: example_bridge_def)
  have g: "get_String ?p ''node_path'' [] = Inr ''/root/Main'' \<and> ''/root/Main'' \<noteq> []
           \<and> get_String ?p ''method_name'' [] = Inr ''queue_free''
           \<and> ''queue_free'' \<in> set BLOCKED_METHODS"
    by (simp add: get_String_def dict_get_def as_String_def BLOCKED_METHODS_def)
  have out: "\<And>r. respond ?E r example_bridge = example_bridge\<lparr>effects := [Sent 1 r]\<rparr>"
    by (simp add: respond_def example_bridge_def outgoing_def)
  from unsafe_gate[OF h, of ?E "VFloat 1"] g h show ?thesis
    by (simp only: out) blast
qed

text \<open>
  Without unsafe mode, \<open>call_method\<close> naming the blocked method \<open>queue_free\<close> but without
  \<open>node_path\<close> is answered with -32602, not -32001.
\<close>

theorem unsafe_gate_call_method_counterexample:
  "\<not> unsafe_mode example_bridge
   \<and> ''queue_free'' \<in> set BLOCKED_METHODS
   \<and> handle_call_method (example_engine 0) (VFloat 1)
       [(VString ''method_name'', VString ''queue_free'')] example_bridge =
       Inr (example_bridge\<lparr>effects := [Sent 1 (Error (VFloat 1) (error_dict (- 32602)
         ''Missing required parameter: node_path''))]\<rparr>)
   \<and> error_dict (- 32602) ''Missing required parameter: node_path''
       = dict_of [(''code'', VInt (- 32602)),
                  (''message'', VString ''Missing required parameter: node_path'')]"
  by (simp add: handle_call_method_def get_String_def dict_get_def as_String_def
      respond_def outgoing_def example_bridge_def example_engine_def BLOCKED_METHODS_def
      error_dict_def)

section \<open>A request that timed out on the client\<close>

lemma map_of_Map_delete [simp]:
  "map_of (Map_delete m k) k' = (if k' = k then None else map_of m k')"
  by (induction m) (auto simp: Map_delete_def)

lemma map_of_Map_set [simp]:
  "map_of (Map_set m k v) k' = (if k' = k then Some v else map_of m k')"
  by (induction m) auto

lemma client_fields [simp]:
  "pendingRequests (settle p s c) = pendingRequests c"
  "pendingRequests (console_error l c) = pendingRequests c"
  "pendingRequests (clearTimeout t c) = pendingRequests c"
  "settlements (settle p s c) = settlements c @ [(p, s)]"
  "settlements (console_error l c) = settlements c"
  "settlements (clearTimeout t c) = settlements c"
  "timers (clearTimeout t c) = (timers c)(t := None)"
  by (simp_all add: settle_def console_error_def clearTimeout_def)

lemma handleMessage_keeps_absent:
  assumes "handleMessage J data c = Inr c'" and "map_of (pendingRequests c) rid = None"
  shows "map_of (pendingRequests c') rid = None"
  using assms
  by (auto simp: handleMessage_def Let_def split: option.splits sum.splits if_splits)

lemma timer_fired_keeps_absent:
  "map_of (pendingRequests c) rid = None \<Longrightarrow> map_of (pendingRequests (timer_fired k c)) rid = None"
  by (auto simp: timer_fired_def Let_def split: option.splits)

lemma disconnect_clears: "pendingRequests (disconnect c) = []"
  by (simp add: disconnect_def rejectAllPending_def)

lemma send_keeps_absent:
  "map_of (pendingRequests c) rid = None \<Longrightarrow> k \<noteq> rid \<Longrightarrow>
   map_of (pendingRequests (snd (send k m p t c))) rid = None"
  by (simp add: send_def)

lemma client_step_keeps_absent:
  assumes "client_step J e c = Inr c'" and "map_of (pendingRequests c) rid = None"
    and "rid \<notin> set (sent_ids [e])"
  shows "map_of (pendingRequests c') rid = None"
proof (cases e)
  case (Send k m p t)
  then show ?thesis using assms send_keeps_absent[of c rid k m p t] by auto
next
  case (Message data)
  then show ?thesis using assms handleMessage_keeps_absent by auto
next
  case (TimerFired k)
  then show ?thesis using assms timer_fired_keeps_absent by auto
next
  case Disconnect
  then show ?thesis using assms disconnect_clears by auto
qed

lemma sent_ids_Cons: "rid \<notin> set (sent_ids (e # es)) \<Longrightarrow> rid \<notin> set (sent_ids [e]) \<and> rid \<notin> set (sent_ids es)"
  by (cases e) auto

lemma client_run_keeps_absent:
  assumes "client_run J es c = Inr c'" and "map_of (pendingRequests c) rid = None"
    and "rid \<notin> set (sent_ids es)"
  shows "map_of (pendingRequests c') rid = None"
  using assms
proof (induction es arbitrary: c)
  case Nil
  then show ?case by simp
next
  case (Cons e es)
  from Cons.prems(1) obtain c1 where step: "client_step J e c = Inr c1"
    and rest: "client_run J es c1 = Inr c'"
    by (auto split: sum.splits)
  from sent_ids_Cons[OF Cons.prems(3)] have e: "rid \<notin> set (sent_ids [e])"
    and es: "rid \<notin> set (sent_ids es)" by simp_all
  from client_step_keeps_absent[OF step Cons.prems(2) e] have "map_of (pendingRequests c1) rid = None" .
  from Cons.IH[OF rest this es] show ?case .
qed

lemma late_response_discarded:
  assumes "map_of (pendingRequests c) (String_of J v) = None"
    and "JSON_parse J data = Some parsed" and "get_prop parsed ''id'' = Inr v"
    and "v \<noteq> JUndefined" and "v \<noteq> JNull"
  shows "handleMessage J data c =
           Inr (console_error
             (''[BRIDGE] Received response for unknown request id: '' @ String_of J v) c)"
  using assms by (simp add: handleMessage_def)

text \<open>
  C3. When the timer of a request fires while the request is still pending, its entry
  is removed from \<open>pendingRequests\<close> and its promise is rejected with the timeout error.
  Whatever happens to the client afterwards (as long as no new request is made with the
  same id), a response that then arrives carrying that id is logged and discarded:
  \<open>handleMessage\<close> returns without throwing, and the state it leaves differs from the
  one before only by the line on the console, so no promise is resolved or rejected.
\<close>

theorem timed_out_request_is_discarded:
  assumes "timers c rid = Some (method, timeoutMs)"
    and "map_of (pendingRequests c) rid \<noteq> None"
  shows "map_of (pendingRequests (timer_fired rid c)) rid = None
     \<and> settlements (timer_fired rid c) =
         settlements c @ [(rid, Rejected (RequestTimedOut method timeoutMs))]
     \<and> (\<forall>es c' data parsed v.
           rid \<notin> set (sent_ids es) \<and> client_run J es (timer_fired rid c) = Inr c'
           \<and> JSON_parse J data = Some parsed \<and> get_prop parsed ''id'' = Inr v
           \<and> v \<noteq> JUndefined \<and> v \<noteq> JNull \<and> String_of J v = rid \<longrightarrow>
           handleMessage J data c' =
             Inr (console_error
               (''[BRIDGE] Received response for unknown request id: '' @ rid) c'))"
proof (intro conjI allI impI)
  show gone: "map_of (pendingRequests (timer_fired rid c)) rid = None"
    using assms by (simp add: timer_fired_def Let_def)
  show "settlements (timer_fired rid c) =
         settlements c @ [(rid, Rejected (RequestTimedOut method timeoutMs))]"
    using assms by (simp add: timer_fired_def Let_def)
  fix es c' data parsed v
  assume a: "rid \<notin> set (sent_ids es) \<and> client_run J es (timer_fired rid c) = Inr c'
           \<and> JSON_parse J data = Some parsed \<and> get_prop parsed ''id'' = Inr v
           \<and> v \<noteq> JUndefined \<and> v \<noteq> JNull \<and> String_of J v = rid"
  then have run: "client_run J es (timer_fired rid c) = Inr c'" and fresh: "rid \<notin> set (sent_ids es)"
    and msg: "JSON_parse J data = Some parsed" "get_prop parsed ''id'' = Inr v"
      "v \<noteq> JUndefined" "v \<noteq> JNull" and v: "String_of J v = rid"
    by simp_all
  have "map_of (pendingRequests c') (String_of J v) = None"
    using client_run_keeps_absent[OF run gone fresh] v by simp
  from late_response_discarded[OF this msg] v
  show "handleMessage J data c' =
             Inr (console_error
               (''[BRIDGE] Received response for unknown request id: '' @ rid) c')"
    by simp
qed


theorem timed_out_request_is_discarded_witness:
  \<open>timers (snd (send ''abc'' ''wait_frames'' (JObject []) 5000 example_client)) ''abc''
      = Some (''wait_frames'', 5000)
   \<and> map_of (pendingRequests (snd (send ''abc'' ''wait_frames'' (JObject []) 5000 example_client)))
        ''abc'' \<noteq> None
   \<and> settlements (timer_fired ''abc''
          (snd (send ''abc'' ''wait_frames'' (JObject []) 5000 example_client)))
      = [(''abc'', Rejected (RequestTimedOut ''wait_frames'' 5000))]
   \<and> handleMessage example_runtime ''{"id":"abc","result":1}''
        (timer_fired ''abc'' (snd (send ''abc'' ''wait_frames'' (JObject []) 5000 example_client)))
      = Inr (console_error ''[BRIDGE] Received response for unknown request id: abc''
          (timer_fired ''abc''
            (snd (send ''abc'' ''wait_frames'' (JObject []) 5000 example_client))))\<close>
proof -
  let ?c = "snd (send ''abc'' ''wait_frames'' (JObject []) 5000 example_client)"
  let ?parsed = "JObject [(''id'', JString ''abc''), (''result'', JNumber 1)]"
  have h1: "timers ?c ''abc'' = Some (''wait_frames'', 5000)"
    by (simp add: send_def example_client_def)
  have h2: "map_of (pendingRequests ?c) ''abc'' \<noteq> None"
    by (simp add: send_def example_client_def)
  have msg: \<open>''abc'' \<notin> set (sent_ids []) \<and> client_run example_runtime [] (timer_fired ''abc'' ?c)
              = Inr (timer_fired ''abc'' ?c)
           \<and> JSON_parse example_runtime ''{"id":"abc","result":1}'' = Some ?parsed
           \<and> get_prop ?parsed ''id'' = Inr (JString ''abc'')
           \<and> JString ''abc'' \<noteq> JUndefined \<and> JString ''abc'' \<noteq> JNull
           \<and> String_of example_runtime (JString ''abc'') = ''abc''\<close>
    by (simp add: example_runtime_def get_prop_def String_of_def)
  from timed_out_request_is_discarded[OF h1 h2, of example_runtime] msg
  have \<open>settlements (timer_fired ''abc'' ?c)
          = settlements ?c @ [(''abc'', Rejected (RequestTimedOut ''wait_frames'' 5000))]
        \<and> handleMessage example_runtime ''{"id":"abc","result":1}'' (timer_fired ''abc'' ?c)
          = Inr (console_error (''[BRIDGE] Received response for unknown request id: '' @ ''abc'')
              (timer_fired ''abc'' ?c))\<close>
    by blast
  moreover have "settlements ?c = []" by (simp add: send_def example_client_def)
  ultimately show ?thesis using h1 h2 by simp
qed

section \<open>Every activation answers at most once\<close>

lemma responses_in_append [simp]: "responses_in (xs @ ys) = responses_in xs @ responses_in ys"
  by (induction xs rule: responses_in.induct) simp_all

lemma evaluations_append [simp]: "evaluations (xs @ ys) = evaluations xs + evaluations ys"
  by (induction xs rule: evaluations.induct) simp_all

lemma outgoing_peer: "ws_peer b1 = ws_peer b \<Longrightarrow> outgoing r b1 = outgoing r b"
  by (simp add: outgoing_def)

lemma evaluations_outgoing [simp]: "evaluations (outgoing r b) = 0"
  by (simp add: outgoing_def split: option.splits)

lemma quiet_self [simp]: "quiet b b"
  by (simp add: quiet_def)

lemma quiet_trans: "quiet b b1 \<Longrightarrow> quiet b1 b2 \<Longrightarrow> quiet b b2"
  by (auto simp: quiet_def)

lemma quiet_do_effect: "responses_in [e] = [] \<Longrightarrow> quiet b b1 \<Longrightarrow> quiet b (do_effect e b1)"
  by (auto simp: quiet_def)

lemma quiet_mark_pending: "quiet b b1 \<Longrightarrow> quiet b (mark_pending E i b1)"
  by (auto simp: quiet_def)

lemma quiet_inject_key: "quiet b b1 \<Longrightarrow> quiet b (inject_key k p c s a m b1)"
  by (simp add: inject_key_def quiet_do_effect)

lemma answered_respond: "quiet b b1 \<Longrightarrow> answered (response_id r) b (respond E r b1)"
  unfolding quiet_def answered_def
proof (elim exE conjE)
  fix xs
  assume e: "effects b1 = effects b @ xs" and n: "responses_in xs = []"
    and p: "ws_peer b1 = ws_peer b"
  have "effects (respond E r b1) = effects b @ xs @ outgoing r b"
    using e outgoing_peer[OF p] by simp
  then show "\<exists>ys r'. effects (respond E r b1) = effects b @ ys @ outgoing r' b
        \<and> responses_in ys = [] \<and> response_id r' = response_id r
        \<and> ws_peer (respond E r b1) = ws_peer b"
    using p n by (intro exI[of _ xs] exI[of _ r]) simp
qed

lemma quiet_answered: "quiet b b1 \<Longrightarrow> answered i b1 b2 \<Longrightarrow> answered i b b2"
  unfolding quiet_def answered_def
proof (elim exE conjE)
  fix xs ys r
  assume e1: "effects b1 = effects b @ xs" and n: "responses_in xs = []"
    and p1: "ws_peer b1 = ws_peer b"
    and e2: "effects b2 = effects b1 @ ys @ outgoing r b1" and i: "response_id r = i"
    and r: "responses_in ys = []" and p2: "ws_peer b2 = ws_peer b1"
  show "\<exists>zs r'. effects b2 = effects b @ zs @ outgoing r' b \<and> responses_in zs = []
        \<and> response_id r' = i \<and> ws_peer b2 = ws_peer b"
    using e1 e2 n i r p1 p2 outgoing_peer[OF p1, of r]
    by (intro exI[of _ "xs @ ys"] exI[of _ r]) simp
qed

lemma ok_returned:
  "quiet b b1 \<Longrightarrow> returned (send_response E i r b1) = Inr (None, respond E (Result i r) b1)
     \<and> activation_ok E i b (None, respond E (Result i r) b1)"
  using answered_respond[of b b1 "Result i r" E] by (simp add: returned_def activation_ok_def)

lemma ok_returned_error:
  "quiet b b1 \<Longrightarrow> returned (send_error E i c m b1) = Inr (None, respond E (Error i (error_dict c m)) b1)
     \<and> activation_ok E i b (None, respond E (Error i (error_dict c m)) b1)"
  using answered_respond[of b b1 "Error i (error_dict c m)" E]
  by (simp add: returned_def activation_ok_def)

lemma ok_suspended:
  "quiet b b1 \<Longrightarrow> coroutine_id c = i \<Longrightarrow> activation_ok E i b (Some c, b1)"
  by (simp add: activation_ok_def)

lemma mouse_drag_loop_ok:
  assumes "quiet b b1"
  shows "\<exists>res. mouse_drag_loop E i fx fy tx ty bi steps k b1 = Inr res \<and> activation_ok E i b res"
proof (cases "k < steps + 1")
  case True
  then show ?thesis
    using assms by (simp add: mouse_drag_loop_def suspended_def ok_suspended quiet_do_effect)
next
  case False
  then show ?thesis
    using ok_returned[OF quiet_do_effect[OF _ assms]] by (simp add: mouse_drag_loop_def)
qed

lemma wait_frames_loop_ok:
  assumes "quiet b b1"
  shows "\<exists>res. wait_frames_loop E i count k b1 = Inr res \<and> activation_ok E i b res"
  using assms ok_returned[OF assms]
  by (cases "k < count") (simp_all add: wait_frames_loop_def suspended_def ok_suspended)

lemma poll_iteration_ok:
  assumes "quiet b b1"
  shows "\<exists>res. poll_iteration E k i expr n timeout_ms iv start lv b1 = Inr res
           \<and> activation_ok E i b res"
proof -
  have q1: "quiet b (do_effect (ExprParse expr) b1)"
    using assms by (simp add: quiet_do_effect)
  have q2: "quiet b (do_effect (ExprExecute expr (get_path n)) (do_effect (ExprParse expr) b1))"
    using q1 by (simp add: quiet_do_effect)
  have q3: "quiet b (do_effect (CreateTimer iv)
              (do_effect (ExprExecute expr (get_path n)) (do_effect (ExprParse expr) b1)))"
    using q2 by (simp add: quiet_do_effect)
  show ?thesis
    using ok_returned[OF assms] ok_returned_error[OF assms] ok_returned_error[OF q1]
      ok_returned_error[OF q2] ok_returned[OF q2] ok_suspended[OF q3]
    by (simp add: poll_iteration_def Let_def suspended_def split: option.splits sum.splits)
qed

lemma wait_for_signal_loop_ok:
  assumes "quiet b b1"
  shows "\<exists>res. wait_for_signal_loop E k i n sig timeout_ms start received args attached b1 = Inr res
           \<and> activation_ok E i b res"
proof -
  have q1: "quiet b (do_effect (SignalDisconnect (get_path n) sig) b1)"
    using assms by (simp add: quiet_do_effect)
  have q2: "quiet b (do_effect (CreateTimer 16) b1)"
    using assms by (simp add: quiet_do_effect)
  show ?thesis
    using ok_returned[OF assms] ok_returned_error[OF assms] ok_returned[OF q1] ok_suspended[OF q2]
    by (simp add: wait_for_signal_loop_def Let_def suspended_def)
qed

lemma resume_ok:
  "\<exists>res. resume E c b = Inr res \<and> activation_ok E (coroutine_id c) b res"
proof (cases c)
  case (KeyTap i ks kc ct sh al me)
  then show ?thesis
    using ok_returned[OF quiet_inject_key[OF quiet_self]] by simp
next
  case (MouseDrag i fx fy tx ty bi steps k)
  then show ?thesis using mouse_drag_loop_ok[OF quiet_self] by simp
next
  case (PollCondition i expr n t iv st lv)
  then show ?thesis using poll_iteration_ok[OF quiet_self] by simp
next
  case (WaitFrames i count k)
  then show ?thesis using wait_frames_loop_ok[OF quiet_self] by simp
next
  case (WaitForSignal i n sig t st rc args at)
  then show ?thesis using wait_for_signal_loop_ok[OF quiet_self] by simp
qed

lemma signal_emitted_id [simp]: "coroutine_id (signal_emitted E args c) = coroutine_id c"
  by (cases c) (simp_all split: prod.splits)

lemma step_ok:
  "\<exists>res. step e c b = Inr res \<and> activation_ok (engine_of e) (coroutine_id c) b res"
proof (cases e)
  case (Resumed E)
  then show ?thesis using resume_ok[of E c b] by simp
next
  case (Emitted E args)
  then show ?thesis by (simp add: activation_ok_def)
qed

lemma run_None [simp]: "run es None b = Inr (None, b)"
  by (cases es) simp_all

text \<open>
  A run of a suspended coroutine never raises. If it ends with the coroutine returned,
  the request was answered exactly once in it; if the coroutine is still suspended, no
  response was sent.
\<close>

lemma run_ok:
  "\<exists>co' b'. run es (Some c) b = Inr (co', b') \<and>
      (case co' of
         None \<Rightarrow> answered (coroutine_id c) b b'
            \<and> (\<exists>e \<in> set es. str (engine_of e) (coroutine_id c) \<notin> pending_responses b')
       | Some c' \<Rightarrow> quiet b b' \<and> coroutine_id c' = coroutine_id c)"
proof (induction es arbitrary: c b)
  case Nil
  then show ?case by simp
next
  case (Cons e es)
  from step_ok[of e c b] obtain co1 b1 where s: "step e c b = Inr (co1, b1)"
    and ok: "activation_ok (engine_of e) (coroutine_id c) b (co1, b1)"
    by auto
  show ?case
  proof (cases co1)
    case None
    then show ?thesis using s ok by (simp add: activation_ok_def)
  next
    case (Some c1)
    then have q: "quiet b b1" and i: "coroutine_id c1 = coroutine_id c"
      using ok by (simp_all add: activation_ok_def)
    from Cons.IH[of c1 b1] obtain co' b' where r: "run es (Some c1) b1 = Inr (co', b')"
      and ok': "case co' of
         None \<Rightarrow> answered (coroutine_id c1) b1 b'
            \<and> (\<exists>e \<in> set es. str (engine_of e) (coroutine_id c1) \<notin> pending_responses b')
       | Some c' \<Rightarrow> quiet b1 b' \<and> coroutine_id c' = coroutine_id c1"
      by blast
    have "run (e # es) (Some c) b = Inr (co', b')" using s Some r by simp
    moreover have "case co' of
         None \<Rightarrow> answered (coroutine_id c) b b'
            \<and> (\<exists>e' \<in> set (e # es). str (engine_of e') (coroutine_id c) \<notin> pending_responses b')
       | Some c' \<Rightarrow> quiet b b' \<and> coroutine_id c' = coroutine_id c"
      using ok' i q quiet_answered[OF q] quiet_trans[OF q]
      by (auto split: option.splits)
    ultimately show ?thesis by blast
  qed
qed

lemma returned_Inr [simp]: "returned (Inr b) = Inr (None, b)"
  by (simp add: returned_def)

lemma ok_None: "quiet b b1 \<Longrightarrow> response_id r = i \<Longrightarrow> activation_ok E i b (None, respond E r b1)"
  using answered_respond[of b b1 r E] by (auto simp: activation_ok_def)

lemma poll_iteration_ok':
  assumes "quiet b b1" and "poll_iteration E k i expr n timeout_ms iv start lv b1 = Inr res"
  shows "activation_ok E i b res"
  using poll_iteration_ok[OF assms(1), of E k i expr n timeout_ms iv start lv] assms(2) by auto

lemma wait_frames_loop_ok':
  assumes "quiet b b1" and "wait_frames_loop E i count k b1 = Inr res"
  shows "activation_ok E i b res"
  using wait_frames_loop_ok[OF assms(1), of E i count k] assms(2) by auto

lemma mouse_drag_loop_ok':
  assumes "quiet b b1" and "mouse_drag_loop E i fx fy tx ty bi steps k b1 = Inr res"
  shows "activation_ok E i b res"
  using mouse_drag_loop_ok[OF assms(1), of E i fx fy tx ty bi steps k] assms(2) by auto

lemma wait_for_signal_loop_ok':
  assumes "quiet b b1"
    and "wait_for_signal_loop E k i n sig timeout_ms start received args attached b1 = Inr res"
  shows "activation_ok E i b res"
  using wait_for_signal_loop_ok[OF assms(1), of E k i n sig timeout_ms start received args attached]
    assms(2) by auto

lemma handle_wait_frames_ok:
  assumes "handle_wait_frames E i params b = Inr res"
  shows "activation_ok E i b res"
proof (cases "get_int E params ''count'' 1")
  case (Inl e)
  then show ?thesis using assms by (simp add: handle_wait_frames_def)
next
  case (Inr count)
  show ?thesis
  proof (cases "count < 1")
    case True
    then show ?thesis using assms Inr by (auto simp: handle_wait_frames_def ok_None)
  next
    case False
    then show ?thesis
      using assms Inr wait_frames_loop_ok'[OF quiet_mark_pending[OF quiet_self]]
      by (auto simp: handle_wait_frames_def)
  qed
qed

lemma handle_wait_for_condition_ok:
  assumes "handle_wait_for_condition E i params b = Inr res"
  shows "activation_ok E i b res"
proof -
  have poll: "\<And>b1 expr n t iv. quiet b b1 \<Longrightarrow> poll_condition E i expr n t iv b1 = Inr res
                \<Longrightarrow> activation_ok E i b res"
    using poll_iteration_ok' by (simp add: poll_condition_def Let_def)
  have q: "\<And>p e. quiet b (mark_pending E i (do_effect (ExprParse e) (do_effect (NodeLookup p) b)))"
    by (intro quiet_mark_pending quiet_do_effect) simp_all
  show ?thesis
    using assms poll[OF q]
    by (auto simp: handle_wait_for_condition_def and_then_def lookup_node_def Let_def
        intro!: ok_None quiet_do_effect
        split: sum.splits option.splits if_splits)
qed

lemma handle_wait_for_signal_ok:
  assumes "handle_wait_for_signal E i params b = Inr res"
  shows "activation_ok E i b res"
proof -
  have w: "\<And>b1 n sig t. quiet b b1 \<Longrightarrow> do_wait_for_signal E i n sig t b1 = Inr res
                \<Longrightarrow> activation_ok E i b res"
  proof -
    fix b1 n sig t
    assume q: "quiet b b1" and r: "do_wait_for_signal E i n sig t b1 = Inr res"
    have "quiet b (do_effect (SignalConnect (get_path n) sig) b1)"
      using q by (simp add: quiet_do_effect)
    from wait_for_signal_loop_ok'[OF this] r show "activation_ok E i b res"
      by (simp add: do_wait_for_signal_def Let_def)
  qed
  have q: "\<And>p. quiet b (mark_pending E i (do_effect (NodeLookup p) b))"
    by (intro quiet_mark_pending quiet_do_effect) simp_all
  show ?thesis
    using assms w[OF q]
    by (auto simp: handle_wait_for_signal_def and_then_def lookup_node_def Let_def
        intro!: ok_None quiet_do_effect
        split: sum.splits option.splits if_splits)
qed

lemma handle_send_mouse_drag_ok:
  assumes "handle_send_mouse_drag E i params b = Inr res"
  shows "activation_ok E i b res"
proof -
  have d: "\<And>fx fy tx ty bi dur. do_mouse_drag E i fx fy tx ty bi dur (mark_pending E i b) = Inr res
                \<Longrightarrow> activation_ok E i b res"
  proof -
    fix fx fy tx ty bi dur
    assume r: "do_mouse_drag E i fx fy tx ty bi dur (mark_pending E i b) = Inr res"
    have "quiet b (do_effect (ParseInputEvent (MouseButtonEvent fx fy bi True))
            (do_effect (ParseInputEvent (MouseMotionEvent fx fy)) (mark_pending E i b)))"
      by (intro quiet_mark_pending quiet_do_effect) simp_all
    from mouse_drag_loop_ok'[OF this] r show "activation_ok E i b res"
      by (simp add: do_mouse_drag_def Let_def)
  qed
  show ?thesis
    using assms d
    by (auto simp: handle_send_mouse_drag_def and_then_def Let_def
        intro!: ok_None
        split: sum.splits if_splits)
qed

lemma handle_send_key_ok:
  assumes "handle_send_key E i params b = Inr res"
  shows "activation_ok E i b res"
  using assms
  by (auto simp: handle_send_key_def and_then_def Let_def suspended_def
      intro!: ok_None ok_suspended quiet_inject_key quiet_do_effect quiet_mark_pending
      split: sum.splits option.splits if_splits prod.splits)

text \<open>
  C1, as the code has it. Take any of the five asynchronous operations (key tap, mouse
  drag, condition poll, frame wait, signal wait), started by its handler for request
  \<open>i\<close>, and let anything happen to its coroutine afterwards. Nothing in it raises. When
  the coroutine has returned, exactly one response was handed to \<open>_send_raw_response\<close>
  since the request came in, it carries the id \<open>i\<close>, and the id is no longer in
  \<open>_pending_responses\<close> (it is erased in the step that sends). While the coroutine is still
  suspended, no response was sent. A coroutine that has returned has no continuation
  left, so no later trigger acts for it. None of this consults \<open>_pending_responses\<close>: the
  table is written and never read.
\<close>

theorem async_operation_answers_once:
  assumes "h \<in> {handle_send_key, handle_send_mouse_drag, handle_wait_for_condition,
                 handle_wait_frames, handle_wait_for_signal}"
    and "h E i params b = Inr (co, b1)"
  shows "\<exists>co' b2. run es co b1 = Inr (co', b2) \<and>
           (case co' of
              None \<Rightarrow> answered i b b2
                \<and> (\<exists>E' \<in> set (E # map engine_of es). str E' i \<notin> pending_responses b2)
            | Some c' \<Rightarrow> quiet b b2 \<and> coroutine_id c' = i)"
proof -
  have ok: "activation_ok E i b (co, b1)"
    using assms handle_send_key_ok handle_send_mouse_drag_ok handle_wait_for_condition_ok
      handle_wait_frames_ok handle_wait_for_signal_ok
    by auto
  show ?thesis
  proof (cases co)
    case None
    then show ?thesis using ok by (simp add: activation_ok_def)
  next
    case (Some c)
    then have q: "quiet b b1" and i: "coroutine_id c = i"
      using ok by (simp_all add: activation_ok_def)
    from run_ok[of es c b1] obtain co' b2 where r: "run es (Some c) b1 = Inr (co', b2)"
      and ok': "case co' of
         None \<Rightarrow> answered (coroutine_id c) b1 b2
            \<and> (\<exists>e \<in> set es. str (engine_of e) (coroutine_id c) \<notin> pending_responses b2)
       | Some c' \<Rightarrow> quiet b1 b2 \<and> coroutine_id c' = coroutine_id c"
      by blast
    have "case co' of
              None \<Rightarrow> answered i b b2
                \<and> (\<exists>E' \<in> set (E # map engine_of es). str E' i \<notin> pending_responses b2)
            | Some c' \<Rightarrow> quiet b b2 \<and> coroutine_id c' = i"
      using ok' i quiet_answered[OF q] quiet_trans[OF q] by (auto split: option.splits)
    then show ?thesis using r Some by blast
  qed
qed

theorem async_operation_answers_once_witness:
  "handle_wait_frames (example_engine 0) (VFloat 1) [(VString ''count'', VFloat 2)] example_bridge
     = Inr (Some (WaitFrames (VFloat 1) 2 0), example_bridge\<lparr>pending_responses := {''1.0''}\<rparr>)
   \<and> run [Resumed (example_engine 16), Resumed (example_engine 32)]
        (Some (WaitFrames (VFloat 1) 2 0)) (example_bridge\<lparr>pending_responses := {''1.0''}\<rparr>)
     = Inr (None, example_bridge\<lparr>effects :=
         [Sent 1 (Result (VFloat 1) (dict_of [(''frames_waited'', VInt 2)]))]\<rparr>)
   \<and> answered (VFloat 1) example_bridge (example_bridge\<lparr>effects :=
         [Sent 1 (Result (VFloat 1) (dict_of [(''frames_waited'', VInt 2)]))]\<rparr>)"
proof -
  let ?E = "example_engine 0"
  let ?b1 = "example_bridge\<lparr>pending_responses := {''1.0''}\<rparr>"
  let ?b2 = "example_bridge\<lparr>effects :=
         [Sent 1 (Result (VFloat 1) (dict_of [(''frames_waited'', VInt 2)]))]\<rparr>"
  let ?es = "[Resumed (example_engine 16), Resumed (example_engine 32)]"
  have h: "handle_wait_frames \<in> {handle_send_key, handle_send_mouse_drag,
             handle_wait_for_condition, handle_wait_frames, handle_wait_for_signal}"
    by simp
  have start: "handle_wait_frames ?E (VFloat 1) [(VString ''count'', VFloat 2)] example_bridge
                 = Inr (Some (WaitFrames (VFloat 1) 2 0), ?b1)"
    by (simp add: handle_wait_frames_def get_int_def int_of_def dict_get_def example_engine_def
        wait_frames_loop_def suspended_def mark_pending_def example_bridge_def)
  have r: "run ?es (Some (WaitFrames (VFloat 1) 2 0)) ?b1 = Inr (None, ?b2)"
    by (simp add: wait_frames_loop_def suspended_def respond_def outgoing_def
        example_bridge_def example_engine_def)
  from async_operation_answers_once[OF h start, of ?es] r
  have "answered (VFloat 1) example_bridge ?b2" by simp
  with start r show ?thesis by simp
qed

text \<open>
  Two frame waits with the same id, for one and for two frames. After the first frame
  the first is answered and the id is erased; the coroutine of the second runs on, and
  after the second frame it answers too, although its id is no longer registered: the
  id has received two responses.
\<close>

theorem same_id_answered_twice_counterexample:
  "handle_wait_frames (example_engine 0) (VFloat 1) [(VString ''count'', VFloat 1)] example_bridge
     = Inr (Some (WaitFrames (VFloat 1) 1 0), example_bridge\<lparr>pending_responses := {''1.0''}\<rparr>)
   \<and> handle_wait_frames (example_engine 0) (VFloat 1) [(VString ''count'', VFloat 2)]
        (example_bridge\<lparr>pending_responses := {''1.0''}\<rparr>)
     = Inr (Some (WaitFrames (VFloat 1) 2 0), example_bridge\<lparr>pending_responses := {''1.0''}\<rparr>)
   \<and> resume (example_engine 16) (WaitFrames (VFloat 1) 1 0)
        (example_bridge\<lparr>pending_responses := {''1.0''}\<rparr>)
     = Inr (None, example_bridge\<lparr>effects :=
         [Sent 1 (Result (VFloat 1) (dict_of [(''frames_waited'', VInt 1)]))]\<rparr>)
   \<and> resume (example_engine 16) (WaitFrames (VFloat 1) 2 0)
        (example_bridge\<lparr>effects :=
           [Sent 1 (Result (VFloat 1) (dict_of [(''frames_waited'', VInt 1)]))]\<rparr>)
     = Inr (Some (WaitFrames (VFloat 1) 2 1), example_bridge\<lparr>effects :=
         [Sent 1 (Result (VFloat 1) (dict_of [(''frames_waited'', VInt 1)]))]\<rparr>)
   \<and> str (example_engine 32) (VFloat 1) \<notin> pending_responses (example_bridge\<lparr>effects :=
         [Sent 1 (Result (VFloat 1) (dict_of [(''frames_waited'', VInt 1)]))]\<rparr>)
   \<and> resume (example_engine 32) (WaitFrames (VFloat 1) 2 1)
        (example_bridge\<lparr>effects :=
           [Sent 1 (Result (VFloat 1) (dict_of [(''frames_waited'', VInt 1)]))]\<rparr>)
     = Inr (None, example_bridge\<lparr>effects :=
         [Sent 1 (Result (VFloat 1) (dict_of [(''frames_waited'', VInt 1)])),
          Sent 1 (Result (VFloat 1) (dict_of [(''frames_waited'', VInt 2)]))]\<rparr>)"
  by (simp add: handle_wait_frames_def get_int_def int_of_def dict_get_def example_engine_def
      wait_frames_loop_def suspended_def mark_pending_def example_bridge_def respond_def
      outgoing_def)

section \<open>The condition poll\<close>

lemma poll_resume_shape:
  assumes "resume E (PollCondition i expr n t iv st lv) b = Inr (co, b')"
  shows "co = None \<or> (\<exists>lv'. co = Some (PollCondition i expr n t iv st lv'))"
  using assms
  by (auto simp: poll_iteration_def Let_def suspended_def returned_def
      split: option.splits sum.splits if_splits)

lemma poll_terminates:
  assumes "\<exists>E' \<in> set Es. get_ticks_msec E' 0 - st \<ge> t"
  shows "\<exists>b'. run (map Resumed Es) (Some (PollCondition i expr n t iv st lv)) b = Inr (None, b')"
  using assms
proof (induction Es arbitrary: lv b)
  case Nil
  then show ?case by simp
next
  case (Cons E Es)
  from resume_ok[of E "PollCondition i expr n t iv st lv" b]
  obtain co b1 where r: "resume E (PollCondition i expr n t iv st lv) b = Inr (co, b1)"
    by auto
  show ?case
  proof (cases co)
    case None
    then show ?thesis using r by simp
  next
    case (Some c)
    then obtain lv' where c: "c = PollCondition i expr n t iv st lv'"
      using poll_resume_shape[OF r] by auto
    have "\<not> get_ticks_msec E 0 - st \<ge> t"
    proof
      assume "get_ticks_msec E 0 - st \<ge> t"
      then have "resume E (PollCondition i expr n t iv st lv) b
                   = returned (send_response E i
                       (dict_of [(''satisfied'', VBool False), (''timeout'', VBool True),
                                 (''last_value'', variant_to_json E lv),
                                 (''elapsed_ms'', VInt (get_ticks_msec E 0 - st))]) b)"
        by (simp add: poll_iteration_def Let_def)
      then show False using r Some by simp
    qed
    then have "\<exists>E' \<in> set Es. get_ticks_msec E' 0 - st \<ge> t" using Cons.prems by auto
    from Cons.IH[OF this, of lv' b1] show ?thesis using r Some c by simp
  qed
qed

text \<open>
  C2, as the code has it. The poll interval of an accepted request is the requested
  \<open>poll_interval_ms\<close> (100 when absent) clamped to at least 16; it is the duration of the
  timer created after each evaluation that was not truthy. At each pass of the loop,
  with \<open>elapsed\<close> the clock minus the start time, the first of these that applies
  decides, and every one of them but the last ends the coroutine with its one response:
  \<^item> \<open>elapsed >= timeout_ms\<close>: the result \<open>{satisfied: false, timeout: true, last_value,
    elapsed_ms}\<close>;
  \<^item> the base node is no longer valid: error -32603;
  \<^item> the expression does not parse, or its execution fails: error -32603;
  \<^item> the value is truthy: the result \<open>{satisfied: true, value, elapsed_ms}\<close>;
  \<^item> otherwise the value is kept as \<open>last_value\<close> and the coroutine waits for the
    interval.
  And the poll ends: once a resumption finds \<open>elapsed >= timeout_ms\<close>, the coroutine has
  returned by then.
\<close>

theorem poll_condition_outcomes:
  "(get_ticks_msec E k - start \<ge> timeout_ms \<longrightarrow>
      poll_iteration E k i expr n timeout_ms iv start lv b =
        Inr (None, respond E (Result i
          (dict_of [(''satisfied'', VBool False), (''timeout'', VBool True),
                    (''last_value'', variant_to_json E lv),
                    (''elapsed_ms'', VInt (get_ticks_msec E k - start))])) b))
   \<and> (get_ticks_msec E k - start < timeout_ms \<and> \<not> is_instance_valid E n \<longrightarrow>
      poll_iteration E k i expr n timeout_ms iv start lv b =
        Inr (None, respond E (Error i
          (error_dict (- 32603) ''Base node was freed (scene changed during wait)'')) b))
   \<and> (\<forall>err. get_ticks_msec E k - start < timeout_ms \<and> is_instance_valid E n
         \<and> expr_parse E expr = Some err \<longrightarrow>
      poll_iteration E k i expr n timeout_ms iv start lv b =
        Inr (None, respond E (Error i
          (error_dict (- 32603) (''Expression error during polling: '' @ err)))
          (do_effect (ExprParse expr) b)))
   \<and> (\<forall>err. get_ticks_msec E k - start < timeout_ms \<and> is_instance_valid E n
         \<and> expr_parse E expr = None \<and> expr_execute E expr n = Inl err \<longrightarrow>
      poll_iteration E k i expr n timeout_ms iv start lv b =
        Inr (None, respond E (Error i
          (error_dict (- 32603) (''Expression execution failed: '' @ err)))
          (do_effect (ExprExecute expr (get_path n)) (do_effect (ExprParse expr) b))))
   \<and> (\<forall>v. get_ticks_msec E k - start < timeout_ms \<and> is_instance_valid E n
         \<and> expr_parse E expr = None \<and> expr_execute E expr n = Inr v \<and> booleanize E v \<longrightarrow>
      poll_iteration E k i expr n timeout_ms iv start lv b =
        Inr (None, respond E (Result i
          (dict_of [(''satisfied'', VBool True), (''value'', variant_to_json E v),
                    (''elapsed_ms'', VInt (get_ticks_msec E (Suc k) - start))]))
          (do_effect (ExprExecute expr (get_path n)) (do_effect (ExprParse expr) b))))
   \<and> (\<forall>v. get_ticks_msec E k - start < timeout_ms \<and> is_instance_valid E n
         \<and> expr_parse E expr = None \<and> expr_execute E expr n = Inr v \<and> \<not> booleanize E v \<longrightarrow>
      poll_iteration E k i expr n timeout_ms iv start lv b =
        Inr (Some (PollCondition i expr n timeout_ms iv start v),
          do_effect (CreateTimer iv)
            (do_effect (ExprExecute expr (get_path n)) (do_effect (ExprParse expr) b))))
   \<and> (\<forall>params b0 c b1. handle_wait_for_condition E i params b0 = Inr (Some c, b1) \<longrightarrow>
        (\<exists>requested e' n' t' st' lv'.
           get_int E params ''poll_interval_ms'' 100 = Inr requested
           \<and> c = PollCondition i e' n' t' (max 16 requested) st' lv'))
   \<and> (\<forall>Es. (\<exists>E' \<in> set Es. get_ticks_msec E' 0 - start \<ge> timeout_ms) \<longrightarrow>
        (\<exists>b'. run (map Resumed Es) (Some (PollCondition i expr n timeout_ms iv start lv)) b
                = Inr (None, b')))"
proof (intro conjI allI impI)
  fix params b0 c b1
  assume "handle_wait_for_condition E i params b0 = Inr (Some c, b1)"
  then show "\<exists>requested e' n' t' st' lv'.
           get_int E params ''poll_interval_ms'' 100 = Inr requested
           \<and> c = PollCondition i e' n' t' (max 16 requested) st' lv'"
    by (auto simp: handle_wait_for_condition_def and_then_def lookup_node_def Let_def
        poll_condition_def poll_iteration_def suspended_def returned_def
        split: sum.splits option.splits if_splits)
next
  fix Es :: "engine list"
  assume "\<exists>E' \<in> set Es. get_ticks_msec E' 0 - start \<ge> timeout_ms"
  then show "\<exists>b'. run (map Resumed Es) (Some (PollCondition i expr n timeout_ms iv start lv)) b
                = Inr (None, b')"
    by (rule poll_terminates)
qed (simp_all add: poll_iteration_def Let_def suspended_def)

theorem poll_condition_outcomes_witness:
  "resume (example_engine 5000) (PollCondition (VFloat 1) ''false'' example_root 5000 100 0 VNil)
       unsafe_bridge
     = Inr (None, unsafe_bridge\<lparr>effects := [Sent 1 (Result (VFloat 1)
         (dict_of [(''satisfied'', VBool False), (''timeout'', VBool True),
                   (''last_value'', VNil), (''elapsed_ms'', VInt 5000)]))]\<rparr>)
   \<and> resume (example_engine 100) (PollCondition (VFloat 1) ''true'' example_root 5000 100 0 VNil)
       unsafe_bridge
     = Inr (None, unsafe_bridge\<lparr>effects := [ExprParse ''true'', ExprExecute ''true'' ''/root'',
         Sent 1 (Result (VFloat 1)
           (dict_of [(''satisfied'', VBool True), (''value'', VBool True),
                     (''elapsed_ms'', VInt 100)]))]\<rparr>)
   \<and> resume (example_engine 100) (PollCondition (VFloat 1) ''false'' example_root 5000 100 0 VNil)
       unsafe_bridge
     = Inr (Some (PollCondition (VFloat 1) ''false'' example_root 5000 100 0 (VBool False)),
         unsafe_bridge\<lparr>effects := [ExprParse ''false'', ExprExecute ''false'' ''/root'',
           CreateTimer 100]\<rparr>)
   \<and> (\<exists>b'. run (map Resumed [example_engine 100, example_engine 5000])
          (Some (PollCondition (VFloat 1) ''false'' example_root 5000 100 0 VNil)) unsafe_bridge
        = Inr (None, b'))"
proof -
  let ?T = "example_engine 5000" and ?E = "example_engine 100"
  note at_timeout = poll_condition_outcomes[where E = ?T and k = 0 and start = 0
      and timeout_ms = 5000 and i = "VFloat 1" and expr = "''false''" and n = example_root
      and iv = 100 and lv = VNil and b = unsafe_bridge]
  note truthy = poll_condition_outcomes[where E = ?E and k = 0 and start = 0
      and timeout_ms = 5000 and i = "VFloat 1" and expr = "''true''" and n = example_root
      and iv = 100 and lv = VNil and b = unsafe_bridge]
  note falsy = poll_condition_outcomes[where E = ?E and k = 0 and start = 0
      and timeout_ms = 5000 and i = "VFloat 1" and expr = "''false''" and n = example_root
      and iv = 100 and lv = VNil and b = unsafe_bridge]
  have t: "get_ticks_msec ?T 0 - 0 \<ge> 5000" by (simp add: example_engine_def)
  have yes: "get_ticks_msec ?E 0 - 0 < 5000 \<and> is_instance_valid ?E example_root
      \<and> expr_parse ?E ''true'' = None \<and> expr_execute ?E ''true'' example_root = Inr (VBool True)
      \<and> booleanize ?E (VBool True)"
    by (simp add: example_engine_def)
  have no: "get_ticks_msec ?E 0 - 0 < 5000 \<and> is_instance_valid ?E example_root
      \<and> expr_parse ?E ''false'' = None \<and> expr_execute ?E ''false'' example_root = Inr (VBool False)
      \<and> \<not> booleanize ?E (VBool False)"
    by (simp add: example_engine_def)
  have later: "\<exists>E' \<in> set [?E, ?T]. get_ticks_msec E' 0 - 0 \<ge> 5000"
    by (simp add: example_engine_def)
  have out: "\<And>E r xs. respond E r (unsafe_bridge\<lparr>effects := xs\<rparr>)
               = unsafe_bridge\<lparr>effects := xs @ [Sent 1 r]\<rparr>"
    "\<And>E r. respond E r unsafe_bridge = unsafe_bridge\<lparr>effects := [Sent 1 r]\<rparr>"
    "\<And>x xs. do_effect x (unsafe_bridge\<lparr>effects := xs\<rparr>) = unsafe_bridge\<lparr>effects := xs @ [x]\<rparr>"
    "\<And>x. do_effect x unsafe_bridge = unsafe_bridge\<lparr>effects := [x]\<rparr>"
    "get_path example_root = ''/root''"
    by (simp_all add: respond_def outgoing_def do_effect_def unsafe_bridge_def example_bridge_def
        example_root_def)
  have clock: "get_ticks_msec ?T 0 = 5000" "get_ticks_msec ?E (Suc 0) = 100"
    by (simp_all add: example_engine_def)
  from at_timeout[THEN conjunct1, rule_format, OF t]
  have r1: "poll_iteration ?T 0 (VFloat 1) ''false'' example_root 5000 100 0 VNil unsafe_bridge
     = Inr (None, unsafe_bridge\<lparr>effects := [Sent 1 (Result (VFloat 1)
         (dict_of [(''satisfied'', VBool False), (''timeout'', VBool True),
                   (''last_value'', VNil), (''elapsed_ms'', VInt 5000)]))]\<rparr>)"
    by (simp add: out clock)
  from truthy[THEN conjunct2, THEN conjunct2, THEN conjunct2, THEN conjunct2, THEN conjunct1,
      rule_format, OF yes]
  have r2: "poll_iteration ?E 0 (VFloat 1) ''true'' example_root 5000 100 0 VNil unsafe_bridge
     = Inr (None, unsafe_bridge\<lparr>effects := [ExprParse ''true'', ExprExecute ''true'' ''/root'',
         Sent 1 (Result (VFloat 1)
           (dict_of [(''satisfied'', VBool True), (''value'', VBool True),
                     (''elapsed_ms'', VInt 100)]))]\<rparr>)"
    by (simp add: out clock)
  from falsy[THEN conjunct2, THEN conjunct2, THEN conjunct2, THEN conjunct2, THEN conjunct2,
      THEN conjunct1, rule_format, OF no]
  have r3: "poll_iteration ?E 0 (VFloat 1) ''false'' example_root 5000 100 0 VNil unsafe_bridge
     = Inr (Some (PollCondition (VFloat 1) ''false'' example_root 5000 100 0 (VBool False)),
         unsafe_bridge\<lparr>effects := [ExprParse ''false'', ExprExecute ''false'' ''/root'',
           CreateTimer 100]\<rparr>)"
    by (simp add: out)
  from falsy[THEN conjunct2, THEN conjunct2, THEN conjunct2, THEN conjunct2, THEN conjunct2,
      THEN conjunct2, THEN conjunct2, rule_format, OF later]
  have r4: "\<exists>b'. run (map Resumed [?E, ?T])
          (Some (PollCondition (VFloat 1) ''false'' example_root 5000 100 0 VNil)) unsafe_bridge
        = Inr (None, b')" .
  from r1 r2 r3 r4 show ?thesis by simp
qed

text \<open>
  A request accepted for polling whose expression fails to execute: the node is valid,
  the timeout has not elapsed, the value is not truthy, and the poll ends with an error
  that is none of the three outcomes.
\<close>

theorem poll_condition_fourth_outcome_counterexample:
  "handle_wait_for_condition (example_engine 0) (VFloat 1)
       [(VString ''expression'', VString ''missing'')] unsafe_bridge
     = Inr (None, unsafe_bridge\<lparr>effects :=
         [NodeLookup ''/root'', ExprParse ''missing'', ExprParse ''missing'',
          ExprExecute ''missing'' ''/root'',
          Sent 1 (Error (VFloat 1) (error_dict (- 32603)
            ''Expression execution failed: Invalid named index''))]\<rparr>)
   \<and> is_instance_valid (example_engine 0) example_root
   \<and> \<not> is_timeout_response (Error (VFloat 1) (error_dict (- 32603)
            ''Expression execution failed: Invalid named index''))
   \<and> \<not> is_satisfied_response (Error (VFloat 1) (error_dict (- 32603)
            ''Expression execution failed: Invalid named index''))
   \<and> \<not> is_node_freed_response (Error (VFloat 1) (error_dict (- 32603)
            ''Expression execution failed: Invalid named index''))"
  by (simp add: handle_wait_for_condition_def get_String_def get_int_def int_of_def dict_get_def
      as_String_def lookup_node_def poll_condition_def poll_iteration_def example_engine_def
      unsafe_bridge_def example_bridge_def respond_def outgoing_def do_effect_def mark_pending_def
      example_root_def is_timeout_response_def is_satisfied_response_def
      is_node_freed_response_def error_dict_def dict_of_def)

lemma no_response_no_Sent: "responses_in zs = [] \<Longrightarrow> Sent p r \<notin> set zs"
  by (induction zs rule: responses_in.induct) auto

lemma Sent_in_outgoing: "Sent p r \<in> set (outgoing r' b) \<Longrightarrow> outgoing r' b = [Sent p r] \<and> r' = r"
  by (cases "ws_peer b") (auto simp: outgoing_def split: if_splits)

lemma not_timeout_response [simp]:
  "\<not> is_timeout_response (Error i e)"
  "\<not> is_timeout_response (Result i (dict_of [(''satisfied'', VBool True), (''value'', v),
        (''elapsed_ms'', VInt el)]))"
  by (simp_all add: is_timeout_response_def dict_of_def)

text \<open>
  The first pass of the loop, made by the handler itself, when the clock has not reached
  the timeout: it ends the poll with a response that is not the timeout response, or it
  evaluates the expression once and waits.
\<close>

lemma first_poll_iteration:
  assumes "get_ticks_msec E 1 - get_ticks_msec E 0 < timeout_ms"
    and "poll_condition E i expr n timeout_ms iv b = Inr (co, b1)"
  shows "(co = None \<and> (\<exists>xs r'. effects b1 = effects b @ xs @ outgoing r' b
              \<and> responses_in xs = [] \<and> \<not> is_timeout_response r'))
       \<or> (\<exists>c. co = Some c \<and> quiet b b1
              \<and> effects b1 = effects b @ [ExprParse expr, ExprExecute expr (get_path n),
                   CreateTimer iv])"
proof (cases "is_instance_valid E n")
  case False
  then have "b1 = respond E (Error i (error_dict (- 32603)
                ''Base node was freed (scene changed during wait)'')) b" and "co = None"
    using assms by (simp_all add: poll_condition_def poll_iteration_def Let_def)
  then show ?thesis
    by (intro disjI1 conjI exI[of _ "[]"]
          exI[of _ "Error i (error_dict (- 32603)
                ''Base node was freed (scene changed during wait)'')"]) simp_all
next
  case True
  note valid = this
  show ?thesis
  proof (cases "expr_parse E expr")
    case (Some err)
    then have "b1 = respond E (Error i (error_dict (- 32603)
                  (''Expression error during polling: '' @ err))) (do_effect (ExprParse expr) b)"
      and "co = None"
      using assms valid by (simp_all add: poll_condition_def poll_iteration_def Let_def)
    then show ?thesis
      by (intro disjI1 conjI exI[of _ "[ExprParse expr]"]
            exI[of _ "Error i (error_dict (- 32603)
                  (''Expression error during polling: '' @ err))"]) simp_all
  next
    case None
    note parsed = this
    let ?b2 = "do_effect (ExprExecute expr (get_path n)) (do_effect (ExprParse expr) b)"
    show ?thesis
    proof (cases "expr_execute E expr n")
      case (Inl err)
      then have "b1 = respond E (Error i (error_dict (- 32603)
                    (''Expression execution failed: '' @ err))) ?b2" and "co = None"
        using assms valid parsed by (simp_all add: poll_condition_def poll_iteration_def Let_def)
      then show ?thesis
        by (intro disjI1 conjI exI[of _ "[ExprParse expr, ExprExecute expr (get_path n)]"]
              exI[of _ "Error i (error_dict (- 32603)
                    (''Expression execution failed: '' @ err))"]) simp_all
    next
      case (Inr v)
      show ?thesis
      proof (cases "booleanize E v")
        case True
        then have "b1 = respond E (Result i
              (dict_of [(''satisfied'', VBool True), (''value'', variant_to_json E v),
                        (''elapsed_ms'', VInt (get_ticks_msec E (Suc 1) - get_ticks_msec E 0))]))
              ?b2" and "co = None"
          using assms valid parsed Inr
          by (simp_all add: poll_condition_def poll_iteration_def Let_def)
        then show ?thesis
          by (intro disjI1 conjI exI[of _ "[ExprParse expr, ExprExecute expr (get_path n)]"]
                exI[of _ "Result i
              (dict_of [(''satisfied'', VBool True), (''value'', variant_to_json E v),
                        (''elapsed_ms'', VInt (get_ticks_msec E (Suc 1) - get_ticks_msec E 0))])"])
             simp_all
      next
        case False
        then have "b1 = do_effect (CreateTimer iv) ?b2"
          and "co = Some (PollCondition i expr n timeout_ms iv (get_ticks_msec E 0) v)"
          using assms valid parsed Inr
          by (simp_all add: poll_condition_def poll_iteration_def Let_def suspended_def)
        then show ?thesis by (simp add: quiet_def)
      qed
    qed
  qed
qed

text \<open>
  C8, as the code has it. When the clock has not reached \<open>timeout_ms\<close> at the first pass
  of the loop (the pass the handler makes at once; the clock has normally not advanced
  by then, so this is any \<open>timeout_ms\<close> of at least 1, also one smaller than the poll
  interval), a timeout response is the last thing the poll does and the expression was
  evaluated at least once before it.
\<close>

theorem poll_evaluates_before_timeout:
  assumes "get_ticks_msec E 1 - get_ticks_msec E 0 < timeout_ms"
    and "poll_condition E i expr n timeout_ms iv b = Inr (co, b1)"
    and "run es co b1 = Inr (co', b2)"
    and "Sent p r \<in> set (new_effects b b2)"
    and "is_timeout_response r"
  shows "\<exists>xs. new_effects b b2 = xs @ [Sent p r] \<and> 1 \<le> evaluations xs"
  using first_poll_iteration[OF assms(1,2)]
proof (elim disjE conjE exE)
  fix xs r'
  assume co: "co = None" and e: "effects b1 = effects b @ xs @ outgoing r' b"
    and n: "responses_in xs = []" and nt: "\<not> is_timeout_response r'"
  have "b2 = b1" using assms(3) co by simp
  then have "Sent p r \<in> set (xs @ outgoing r' b)" using assms(4) e by simp
  then have "r' = r" using no_response_no_Sent[OF n] Sent_in_outgoing by auto
  then show ?thesis using nt assms(5) by simp
next
  fix c
  assume co: "co = Some c" and q: "quiet b b1"
    and e: "effects b1 = effects b @ [ExprParse expr, ExprExecute expr (get_path n),
                   CreateTimer iv]"
  let ?first = "[ExprParse expr, ExprExecute expr (get_path n), CreateTimer iv]"
  from run_ok[of es c b1] assms(3) co
  have ok: "case co' of
         None \<Rightarrow> answered (coroutine_id c) b1 b2
            \<and> (\<exists>e \<in> set es. str (engine_of e) (coroutine_id c) \<notin> pending_responses b2)
       | Some c' \<Rightarrow> quiet b1 b2 \<and> coroutine_id c' = coroutine_id c"
    by auto
  show ?thesis
  proof (cases co')
    case (Some c')
    then obtain zs where "effects b2 = effects b1 @ zs" "responses_in zs = []"
      using ok by (auto simp: quiet_def)
    then have "Sent p r \<in> set (?first @ zs)" and "responses_in (?first @ zs) = []"
      using assms(4) e by simp_all
    then show ?thesis using no_response_no_Sent by blast
  next
    case None
    then obtain zs r' where z: "effects b2 = effects b1 @ zs @ outgoing r' b1"
      and n: "responses_in zs = []"
      using ok by (auto simp: answered_def)
    have ne: "new_effects b b2 = (?first @ zs) @ outgoing r' b1" using z e by simp
    have "responses_in (?first @ zs) = []" using n by simp
    then have "Sent p r \<notin> set (?first @ zs)" by (rule no_response_no_Sent)
    then have "Sent p r \<in> set (outgoing r' b1)" using assms(4) ne by auto
    then have "outgoing r' b1 = [Sent p r]" using Sent_in_outgoing by blast
    then have "new_effects b b2 = (?first @ zs) @ [Sent p r]" using ne by simp
    moreover have "1 \<le> evaluations (?first @ zs)" by simp
    ultimately show ?thesis by blast
  qed
qed

theorem poll_evaluates_before_timeout_witness:
  "get_ticks_msec (example_engine 0) 1 - get_ticks_msec (example_engine 0) 0 < 5
   \<and> poll_condition (example_engine 0) (VFloat 1) ''false'' example_root 5 100 unsafe_bridge
       = Inr (Some (PollCondition (VFloat 1) ''false'' example_root 5 100 0 (VBool False)),
           unsafe_bridge\<lparr>effects := [ExprParse ''false'', ExprExecute ''false'' ''/root'',
             CreateTimer 100]\<rparr>)
   \<and> run [Resumed (example_engine 100)]
        (Some (PollCondition (VFloat 1) ''false'' example_root 5 100 0 (VBool False)))
        (unsafe_bridge\<lparr>effects := [ExprParse ''false'', ExprExecute ''false'' ''/root'',
             CreateTimer 100]\<rparr>)
       = Inr (None, unsafe_bridge\<lparr>effects := [ExprParse ''false'', ExprExecute ''false'' ''/root'',
             CreateTimer 100,
             Sent 1 (Result (VFloat 1)
               (dict_of [(''satisfied'', VBool False), (''timeout'', VBool True),
                         (''last_value'', VBool False), (''elapsed_ms'', VInt 100)]))]\<rparr>)
   \<and> (\<exists>xs. [ExprParse ''false'', ExprExecute ''false'' ''/root'', CreateTimer 100,
             Sent 1 (Result (VFloat 1)
               (dict_of [(''satisfied'', VBool False), (''timeout'', VBool True),
                         (''last_value'', VBool False), (''elapsed_ms'', VInt 100)]))]
           = xs @ [Sent 1 (Result (VFloat 1)
               (dict_of [(''satisfied'', VBool False), (''timeout'', VBool True),
                         (''last_value'', VBool False), (''elapsed_ms'', VInt 100)]))]
          \<and> 1 \<le> evaluations xs)"
proof -
  let ?E = "example_engine 0"
  let ?c = "PollCondition (VFloat 1) ''false'' example_root 5 100 0 (VBool False)"
  let ?first = "[ExprParse ''false'', ExprExecute ''false'' ''/root'', CreateTimer 100]"
  let ?r = "Result (VFloat 1)
               (dict_of [(''satisfied'', VBool False), (''timeout'', VBool True),
                         (''last_value'', VBool False), (''elapsed_ms'', VInt 100)])"
  let ?b1 = "unsafe_bridge\<lparr>effects := ?first\<rparr>"
  let ?b2 = "unsafe_bridge\<lparr>effects := ?first @ [Sent 1 ?r]\<rparr>"
  have h1: "get_ticks_msec ?E 1 - get_ticks_msec ?E 0 < 5" by (simp add: example_engine_def)
  have h2: "poll_condition ?E (VFloat 1) ''false'' example_root 5 100 unsafe_bridge
              = Inr (Some ?c, ?b1)"
    by (simp add: poll_condition_def poll_iteration_def example_engine_def suspended_def
        do_effect_def unsafe_bridge_def example_bridge_def example_root_def)
  have h3: "run [Resumed (example_engine 100)] (Some ?c) ?b1 = Inr (None, ?b2)"
    by (simp add: poll_iteration_def example_engine_def respond_def outgoing_def
        unsafe_bridge_def example_bridge_def)
  have h4: "Sent 1 ?r \<in> set (new_effects unsafe_bridge ?b2)"
    by (simp add: new_effects_def unsafe_bridge_def example_bridge_def)
  have h5: "is_timeout_response ?r" unfolding is_timeout_response_def by blast
  have ne: "new_effects unsafe_bridge ?b2 = ?first @ [Sent 1 ?r]"
    by (simp add: new_effects_def unsafe_bridge_def example_bridge_def)
  from poll_evaluates_before_timeout[OF h1 h2 h3 h4 h5]
  have "\<exists>xs. ?first @ [Sent 1 ?r] = xs @ [Sent 1 ?r] \<and> 1 \<le> evaluations xs"
    by (simp only: ne)
  with h1 h2 h3 show ?thesis by simp
qed

text \<open>
  With \<open>timeout_ms\<close> zero the handler's first pass of the loop already finds the timeout
  reached: the timeout response is sent and the expression was never executed.
\<close>

theorem poll_zero_timeout_counterexample:
  "handle_wait_for_condition (example_engine 0) (VFloat 1)
       [(VString ''expression'', VString ''false''), (VString ''timeout_ms'', VFloat 0)]
       unsafe_bridge
     = Inr (None, unsafe_bridge\<lparr>effects :=
         [NodeLookup ''/root'', ExprParse ''false'',
          Sent 1 (Result (VFloat 1)
            (dict_of [(''satisfied'', VBool False), (''timeout'', VBool True),
                      (''last_value'', VNil), (''elapsed_ms'', VInt 0)]))]\<rparr>)
   \<and> evaluations [NodeLookup ''/root'', ExprParse ''false'',
          Sent 1 (Result (VFloat 1)
            (dict_of [(''satisfied'', VBool False), (''timeout'', VBool True),
                      (''last_value'', VNil), (''elapsed_ms'', VInt 0)]))] = 0"
  by (simp add: handle_wait_for_condition_def get_String_def get_int_def int_of_def dict_get_def
      as_String_def lookup_node_def poll_condition_def poll_iteration_def example_engine_def
      unsafe_bridge_def example_bridge_def respond_def outgoing_def do_effect_def mark_pending_def)

section \<open>Operations that outlive their connection\<close>

text \<open>
  C7, as the code has it. Accepting a new connection closes the previous peer and makes
  the new one current. An operation started before may still fire, in any later state:
  firing never raises; whatever it sends is its own response, written on the peer that is
  current and open at that moment, so never on a superseded one; when the current peer
  is open (it may be the new one) the response is written on it as the last thing the
  coroutine does, and when there is none or it is not open, nothing is written.
\<close>

theorem orphaned_operation_response:
  "(\<exists>res. resume E c b = Inr res)
   \<and> (\<forall>co b' p r. resume E c b = Inr (co, b') \<and> Sent p r \<in> set (new_effects b b') \<longrightarrow>
         co = None \<and> response_id r = coroutine_id c
         \<and> (\<exists>q. ws_peer b = Some q \<and> peer_id q = p \<and> ready q = STATE_OPEN))
   \<and> (\<forall>b' q. resume E c b = Inr (None, b') \<and> ws_peer b = Some q \<and> ready q = STATE_OPEN \<longrightarrow>
         (\<exists>xs r. new_effects b b' = xs @ [Sent (peer_id q) r] \<and> responses_in xs = []
            \<and> response_id r = coroutine_id c))
   \<and> (\<forall>b'. resume E c b = Inr (None, b') \<and> \<not> peer_open b \<longrightarrow>
         responses_in (new_effects b b') = [])
   \<and> ws_peer (accept_connection new_id True b0) = Some \<lparr>peer_id = new_id, ready = STATE_CONNECTING\<rparr>
   \<and> (\<forall>old. ws_peer b0 = Some old \<longrightarrow>
         new_effects b0 (accept_connection new_id True b0) = [PeerClosed (peer_id old)])"
proof -
  have c1: "\<exists>res. resume E c b = Inr res" using resume_ok[of E c b] by blast
  have c2: "\<forall>co b' p r. resume E c b = Inr (co, b') \<and> Sent p r \<in> set (new_effects b b') \<longrightarrow>
         co = None \<and> response_id r = coroutine_id c
         \<and> (\<exists>q. ws_peer b = Some q \<and> peer_id q = p \<and> ready q = STATE_OPEN)"
  proof (intro allI impI)
    fix co b' p r
    assume a: "resume E c b = Inr (co, b') \<and> Sent p r \<in> set (new_effects b b')"
    with resume_ok[of E c b] have ok: "activation_ok E (coroutine_id c) b (co, b')" by auto
    show "co = None \<and> response_id r = coroutine_id c
           \<and> (\<exists>q. ws_peer b = Some q \<and> peer_id q = p \<and> ready q = STATE_OPEN)"
    proof (cases co)
      case (Some c')
      then obtain xs where "effects b' = effects b @ xs" "responses_in xs = []"
        using ok by (auto simp: activation_ok_def quiet_def)
      then show ?thesis using a no_response_no_Sent by auto
    next
      case None
      then obtain xs r' where e: "effects b' = effects b @ xs @ outgoing r' b"
        and n: "responses_in xs = []" and i: "response_id r' = coroutine_id c"
        using ok by (auto simp: activation_ok_def answered_def)
      have "Sent p r \<in> set (xs @ outgoing r' b)" using a e by simp
      then have s: "Sent p r \<in> set (outgoing r' b)" using no_response_no_Sent[OF n] by auto
      then have "r' = r" using Sent_in_outgoing by blast
      moreover have "\<exists>q. ws_peer b = Some q \<and> peer_id q = p \<and> ready q = STATE_OPEN"
        using s by (cases "ws_peer b") (auto simp: outgoing_def split: if_splits)
      ultimately show ?thesis using None i by simp
    qed
  qed
  have c3: "\<forall>b' q. resume E c b = Inr (None, b') \<and> ws_peer b = Some q \<and> ready q = STATE_OPEN \<longrightarrow>
         (\<exists>xs r. new_effects b b' = xs @ [Sent (peer_id q) r] \<and> responses_in xs = []
            \<and> response_id r = coroutine_id c)"
  proof (intro allI impI)
    fix b' q
    assume a: "resume E c b = Inr (None, b') \<and> ws_peer b = Some q \<and> ready q = STATE_OPEN"
    with resume_ok[of E c b] have "activation_ok E (coroutine_id c) b (None, b')" by auto
    then obtain xs r where e: "effects b' = effects b @ xs @ outgoing r b"
      and n: "responses_in xs = []" and i: "response_id r = coroutine_id c"
      by (auto simp: activation_ok_def answered_def)
    have "outgoing r b = [Sent (peer_id q) r]" using a by (simp add: outgoing_def)
    then have "new_effects b b' = xs @ [Sent (peer_id q) r]" using e by simp
    then show "\<exists>xs r. new_effects b b' = xs @ [Sent (peer_id q) r] \<and> responses_in xs = []
              \<and> response_id r = coroutine_id c"
      using n i by blast
  qed
  have c4: "\<forall>b'. resume E c b = Inr (None, b') \<and> \<not> peer_open b \<longrightarrow>
         responses_in (new_effects b b') = []"
  proof (intro allI impI)
    fix b'
    assume a: "resume E c b = Inr (None, b') \<and> \<not> peer_open b"
    with resume_ok[of E c b] have "activation_ok E (coroutine_id c) b (None, b')" by auto
    then obtain xs r where e: "effects b' = effects b @ xs @ outgoing r b"
      and n: "responses_in xs = []"
      by (auto simp: activation_ok_def answered_def)
    have "outgoing r b = []" using a by (simp add: outgoing_cases)
    then show "responses_in (new_effects b b') = []" using e n by simp
  qed
  have c5: "ws_peer (accept_connection new_id True b0)
          = Some \<lparr>peer_id = new_id, ready = STATE_CONNECTING\<rparr>"
    by (simp add: accept_connection_def Let_def split: option.splits)
  have c6: "\<forall>old. ws_peer b0 = Some old \<longrightarrow>
         new_effects b0 (accept_connection new_id True b0) = [PeerClosed (peer_id old)]"
    by (simp add: accept_connection_def Let_def)
  from c1 c2 c3 c4 c5 c6 show ?thesis by (intro conjI)
qed

theorem orphaned_operation_response_witness:
  "resume (example_engine 48) (WaitFrames (VFloat 1) 3 2)
       \<lparr>active = True, unsafe_mode = False, ws_peer = None,
        pending_responses = {''1.0''}, effects = [PeerClosed 1]\<rparr>
     = Inr (None, \<lparr>active = True, unsafe_mode = False, ws_peer = None,
        pending_responses = {}, effects = [PeerClosed 1]\<rparr>)
   \<and> \<not> peer_open \<lparr>active = True, unsafe_mode = False, ws_peer = None,
        pending_responses = {''1.0''}, effects = [PeerClosed 1]\<rparr>
   \<and> responses_in (new_effects
        \<lparr>active = True, unsafe_mode = False, ws_peer = None,
         pending_responses = {''1.0''}, effects = [PeerClosed 1]\<rparr>
        \<lparr>active = True, unsafe_mode = False, ws_peer = None,
         pending_responses = {}, effects = [PeerClosed 1]\<rparr>) = []
   \<and> ws_peer example_bridge = Some \<lparr>peer_id = 1, ready = STATE_OPEN\<rparr>
   \<and> new_effects example_bridge (accept_connection 2 True example_bridge) = [PeerClosed 1]"
proof -
  let ?b = "\<lparr>active = True, unsafe_mode = False, ws_peer = None,
        pending_responses = {''1.0''}, effects = [PeerClosed 1]\<rparr>"
  let ?b' = "\<lparr>active = True, unsafe_mode = False, ws_peer = None,
        pending_responses = {}, effects = [PeerClosed 1]\<rparr>"
  note main = orphaned_operation_response[of "example_engine 48" "WaitFrames (VFloat 1) 3 2" ?b
      2 example_bridge]
  have r: "resume (example_engine 48) (WaitFrames (VFloat 1) 3 2) ?b = Inr (None, ?b')"
    by (simp add: wait_frames_loop_def respond_def outgoing_def example_engine_def)
  have closed: "\<not> peer_open ?b" by (simp add: peer_open_def)
  have old: "ws_peer example_bridge = Some \<lparr>peer_id = 1, ready = STATE_OPEN\<rparr>"
    by (simp add: example_bridge_def)
  from main[THEN conjunct2, THEN conjunct2, THEN conjunct2, THEN conjunct1, rule_format, of ?b']
    r closed
  have quiet: "responses_in (new_effects ?b ?b') = []" by blast
  from main[THEN conjunct2, THEN conjunct2, THEN conjunct2, THEN conjunct2, THEN conjunct2,
      rule_format, OF old]
  have "new_effects example_bridge (accept_connection 2 True example_bridge) = [PeerClosed 1]"
    by simp
  with r closed quiet old show ?thesis by simp
qed

text \<open>
  A frame wait for three frames is started on peer 1. During the first frame a new
  connection, peer 2, is accepted and peer 1 is closed; during the second, peer 2
  becomes open. After the third frame the wait, made under peer 1, answers: its response
  is written on peer 2.
\<close>

theorem orphaned_response_reaches_new_peer_counterexample:
  "handle_wait_frames (example_engine 0) (VFloat 1) [(VString ''count'', VFloat 3)] example_bridge
     = Inr (Some (WaitFrames (VFloat 1) 3 0),
         \<lparr>active = True, unsafe_mode = False,
          ws_peer = Some \<lparr>peer_id = 1, ready = STATE_OPEN\<rparr>,
          pending_responses = {''1.0''}, effects = []\<rparr>)
   \<and> resume (example_engine 16) (WaitFrames (VFloat 1) 3 0)
        \<lparr>active = True, unsafe_mode = False,
         ws_peer = Some \<lparr>peer_id = 1, ready = STATE_OPEN\<rparr>,
         pending_responses = {''1.0''}, effects = []\<rparr>
     = Inr (Some (WaitFrames (VFloat 1) 3 1),
         \<lparr>active = True, unsafe_mode = False,
          ws_peer = Some \<lparr>peer_id = 1, ready = STATE_OPEN\<rparr>,
          pending_responses = {''1.0''}, effects = []\<rparr>)
   \<and> process (example_engine 16) (\<lambda>i m p b. Inr b) (Some (2, True)) STATE_CONNECTING []
        \<lparr>active = True, unsafe_mode = False,
         ws_peer = Some \<lparr>peer_id = 1, ready = STATE_OPEN\<rparr>,
         pending_responses = {''1.0''}, effects = []\<rparr>
     = ([], \<lparr>active = True, unsafe_mode = False,
          ws_peer = Some \<lparr>peer_id = 2, ready = STATE_CONNECTING\<rparr>,
          pending_responses = {''1.0''}, effects = [PeerClosed 1]\<rparr>)
   \<and> resume (example_engine 32) (WaitFrames (VFloat 1) 3 1)
        \<lparr>active = True, unsafe_mode = False,
         ws_peer = Some \<lparr>peer_id = 2, ready = STATE_CONNECTING\<rparr>,
         pending_responses = {''1.0''}, effects = [PeerClosed 1]\<rparr>
     = Inr (Some (WaitFrames (VFloat 1) 3 2),
         \<lparr>active = True, unsafe_mode = False,
          ws_peer = Some \<lparr>peer_id = 2, ready = STATE_CONNECTING\<rparr>,
          pending_responses = {''1.0''}, effects = [PeerClosed 1]\<rparr>)
   \<and> process (example_engine 32) (\<lambda>i m p b. Inr b) None STATE_OPEN []
        \<lparr>active = True, unsafe_mode = False,
         ws_peer = Some \<lparr>peer_id = 2, ready = STATE_CONNECTING\<rparr>,
         pending_responses = {''1.0''}, effects = [PeerClosed 1]\<rparr>
     = ([], \<lparr>active = True, unsafe_mode = False,
          ws_peer = Some \<lparr>peer_id = 2, ready = STATE_OPEN\<rparr>,
          pending_responses = {''1.0''}, effects = [PeerClosed 1]\<rparr>)
   \<and> resume (example_engine 48) (WaitFrames (VFloat 1) 3 2)
        \<lparr>active = True, unsafe_mode = False,
         ws_peer = Some \<lparr>peer_id = 2, ready = STATE_OPEN\<rparr>,
         pending_responses = {''1.0''}, effects = [PeerClosed 1]\<rparr>
     = Inr (None,
         \<lparr>active = True, unsafe_mode = False,
          ws_peer = Some \<lparr>peer_id = 2, ready = STATE_OPEN\<rparr>,
          pending_responses = {},
          effects = [PeerClosed 1,
            Sent 2 (Result (VFloat 1) (dict_of [(''frames_waited'', VInt 3)]))]\<rparr>)"
  by (simp add: handle_wait_frames_def get_int_def int_of_def dict_get_def example_engine_def
      wait_frames_loop_def suspended_def mark_pending_def example_bridge_def respond_def
      outgoing_def process_def accept_connection_def do_effect_def Let_def)

section \<open>The signal wait\<close>

lemma not_received_response [simp]:
  "\<not> is_received_response (Error i e)"
  "\<not> is_received_response (Result i (dict_of [(''received'', VBool False), (''timeout'', VBool True),
        (''elapsed_ms'', VInt el)]))"
  by (simp_all add: is_received_response_def dict_of_def)

text \<open>
  One pass of the loop with \<open>received = false\<close>: whatever it sends is not the
  \<open>received: true\<close> response, and if the coroutine goes on waiting its \<open>received\<close> is
  still false.
\<close>

lemma wait_for_signal_loop_not_received:
  assumes "wait_for_signal_loop E k i n s t st False args att b = Inr (co, b')"
  shows "\<exists>xs. effects b' = effects b @ xs
           \<and> (\<forall>p r. Sent p r \<in> set xs \<longrightarrow> \<not> is_received_response r)
           \<and> (co = None \<or> co = Some (WaitForSignal i n s t st False args att))"
proof (cases "is_instance_valid E n")
  case False
  then have "b' = respond E (Error i (error_dict (- 32603)
                ''Node was freed (scene changed during wait)'')) b" and "co = None"
    using assms by (simp_all add: wait_for_signal_loop_def)
  then show ?thesis
    by (intro exI[of _ "outgoing (Error i (error_dict (- 32603)
                ''Node was freed (scene changed during wait)'')) b"])
       (auto dest: Sent_in_outgoing)
next
  case True
  note valid = this
  let ?el = "get_ticks_msec E k - st"
  show ?thesis
  proof (cases "?el \<ge> t")
    case False
    then have "b' = do_effect (CreateTimer 16) b"
      and "co = Some (WaitForSignal i n s t st False args att)"
      using assms valid by (simp_all add: wait_for_signal_loop_def Let_def suspended_def)
    then show ?thesis by (intro exI[of _ "[CreateTimer 16]"]) simp
  next
    case True
    let ?r = "Result i (dict_of [(''received'', VBool False), (''timeout'', VBool True),
                (''elapsed_ms'', VInt ?el)])"
    let ?b1 = "if is_instance_valid E n \<and> att
                 then do_effect (SignalDisconnect (get_path n) s) b else b"
    have "b' = respond E ?r ?b1" and co: "co = None"
      using assms valid True by (simp_all add: wait_for_signal_loop_def Let_def)
    then have "effects b' = effects b @ (if att then [SignalDisconnect (get_path n) s] else [])
                 @ outgoing ?r b"
      using valid by simp
    then show ?thesis using co
      by (intro exI[of _ "(if att then [SignalDisconnect (get_path n) s] else [])
                 @ outgoing ?r b"])
         (auto dest: Sent_in_outgoing)
  qed
qed

lemma signal_emitted_not_received:
  "\<exists>args' att'. signal_emitted E a (WaitForSignal i n s t st False args att)
      = WaitForSignal i n s t st False args' att'"
  by (auto simp add: signal_callable_def Let_def)

text \<open>
  However the signal and the timer interleave, a signal wait whose \<open>received\<close> is false
  never sends the \<open>received: true\<close> response.
\<close>

lemma run_not_received:
  assumes "run es (Some (WaitForSignal i n s t st False args att)) b = Inr (co', b')"
  shows "\<exists>xs. effects b' = effects b @ xs
           \<and> (\<forall>p r. Sent p r \<in> set xs \<longrightarrow> \<not> is_received_response r)"
  using assms
proof (induction es arbitrary: args att b)
  case Nil
  then show ?case by simp
next
  case (Cons e es)
  show ?case
  proof (cases e)
    case (Emitted E a)
    obtain args' att' where c: "signal_emitted E a (WaitForSignal i n s t st False args att)
      = WaitForSignal i n s t st False args' att'"
      using signal_emitted_not_received by blast
    then have "run es (Some (WaitForSignal i n s t st False args' att')) b = Inr (co', b')"
      using Cons.prems Emitted by simp
    from Cons.IH[OF this] show ?thesis .
  next
    case (Resumed E)
    from resume_ok[of E "WaitForSignal i n s t st False args att" b]
    obtain co1 b1 where r: "wait_for_signal_loop E 0 i n s t st False args att b = Inr (co1, b1)"
      by auto
    from wait_for_signal_loop_not_received[OF r]
    obtain xs where e1: "effects b1 = effects b @ xs"
      and n1: "\<forall>p r. Sent p r \<in> set xs \<longrightarrow> \<not> is_received_response r"
      and c1: "co1 = None \<or> co1 = Some (WaitForSignal i n s t st False args att)"
      by blast
    from c1 show ?thesis
    proof
      assume "co1 = None"
      then have "b' = b1" using Cons.prems Resumed r by simp
      then show ?thesis using e1 n1 by blast
    next
      assume "co1 = Some (WaitForSignal i n s t st False args att)"
      then have "run es (Some (WaitForSignal i n s t st False args att)) b1 = Inr (co', b')"
        using Cons.prems Resumed r by simp
      from Cons.IH[OF this] obtain ys where e2: "effects b' = effects b1 @ ys"
        and n2: "\<forall>p r. Sent p r \<in> set ys \<longrightarrow> \<not> is_received_response r"
        by blast
      have "effects b' = effects b @ (xs @ ys)" using e1 e2 by simp
      moreover have "\<forall>p r. Sent p r \<in> set (xs @ ys) \<longrightarrow> \<not> is_received_response r"
        using n1 n2 by auto
      ultimately show ?thesis by blast
    qed
  qed
qed

text \<open>
  C4 fails on the code. A signal wait on \<open>/root/Main\<close> for \<open>test_signal\<close>, with a timeout
  of 5000 ms. Right after the request the node emits the signal with the two arguments
  \<open>1\<close> and \<open>"a"\<close>: the lambda runs, appends both to \<open>signal_args\<close>, and the one-shot
  connection is gone; the coroutine's own \<open>received\<close> is still false. The loop goes on
  until the timeout, and the response is \<open>{received: false, timeout: true, elapsed_ms}\<close>.
\<close>

theorem wait_for_signal_immediate_signal_times_out:
  "handle_wait_for_signal (example_engine 0) (VFloat 1)
       [(VString ''node_path'', VString ''/root/Main''),
        (VString ''signal_name'', VString ''test_signal''),
        (VString ''timeout_ms'', VFloat 5000)] example_bridge
     = Inr (Some (WaitForSignal (VFloat 1) example_main ''test_signal'' 5000 0 False [] True),
         example_bridge\<lparr>pending_responses := {''1.0''},
           effects := [NodeLookup ''/root/Main'', SignalConnect ''/root/Main'' ''test_signal'',
             CreateTimer 16]\<rparr>)
   \<and> signal_emitted (example_engine 1) [VInt 1, VString ''a'']
        (WaitForSignal (VFloat 1) example_main ''test_signal'' 5000 0 False [] True)
     = WaitForSignal (VFloat 1) example_main ''test_signal'' 5000 0 False
         [VInt 1, VString ''a''] False
   \<and> run [Emitted (example_engine 1) [VInt 1, VString ''a''], Resumed (example_engine 16),
           Resumed (example_engine 5008)]
        (Some (WaitForSignal (VFloat 1) example_main ''test_signal'' 5000 0 False [] True))
        (example_bridge\<lparr>pending_responses := {''1.0''},
           effects := [NodeLookup ''/root/Main'', SignalConnect ''/root/Main'' ''test_signal'',
             CreateTimer 16]\<rparr>)
     = Inr (None, example_bridge\<lparr>pending_responses := {},
           effects := [NodeLookup ''/root/Main'', SignalConnect ''/root/Main'' ''test_signal'',
             CreateTimer 16, CreateTimer 16,
             Sent 1 (Result (VFloat 1)
               (dict_of [(''received'', VBool False), (''timeout'', VBool True),
                         (''elapsed_ms'', VInt 5008)]))]\<rparr>)"
  by (simp add: handle_wait_for_signal_def get_String_def get_int_def int_of_def dict_get_def
      as_String_def lookup_node_def do_wait_for_signal_def wait_for_signal_loop_def
      signal_callable_def is_null_def example_engine_def example_bridge_def example_main_def
      suspended_def mark_pending_def respond_def outgoing_def do_effect_def Let_def)

end
